theory Spec2Isabelle
  imports Main
begin

section \<open>Data model (models/refund\_case.py)\<close>

datatype refund_case_status = PENDING | APPROVED | REJECTED | COMPLETED

datatype eligibility_status = ELIGIBLE | PARTIALLY_ELIGIBLE | INELIGIBLE

text \<open>The \<^verbatim>\<open>.value\<close> of the two string enums.\<close>

fun status_value :: "refund_case_status \<Rightarrow> string" where
  "status_value PENDING = ''Pending''"
| "status_value APPROVED = ''Approved''"
| "status_value REJECTED = ''Rejected''"
| "status_value COMPLETED = ''Completed''"

fun eligibility_value :: "eligibility_status \<Rightarrow> string" where
  "eligibility_value ELIGIBLE = ''Eligible''"
| "eligibility_value PARTIALLY_ELIGIBLE = ''Partially Eligible''"
| "eligibility_value INELIGIBLE = ''Ineligible''"

text \<open>
  A \<^verbatim>\<open>datetime\<close>: its calendar day (the proleptic Gregorian ordinal that
  \<^verbatim>\<open>date.toordinal()\<close> gives, so that the difference of two days is the
  \<^verbatim>\<open>.days\<close> of their \<^verbatim>\<open>timedelta\<close>) and the microseconds within the day.
  Every \<^verbatim>\<open>datetime.utcnow()\<close> of the source is an explicit argument of the model.
\<close>

record datetime =
  dt_date :: int
  dt_time :: nat

text \<open>One entry of the conflict list built by \<^verbatim>\<open>check_existing_refunds\<close>.\<close>

record conflict =
  c_refund_id :: string
  c_product_id :: string
  c_status :: refund_case_status

text \<open>
  The exceptions the code raises, with their constructor arguments (the classes of
  \<^verbatim>\<open>middleware/exceptions.py\<close> are taken as they are constructed in the sources;
  the second argument of \<^verbatim>\<open>BusinessRuleException\<close> is the optional detail, here the
  conflict list).
  \<^verbatim>\<open>InvalidIsoformat s\<close> is the \<^verbatim>\<open>ValueError\<close> that
  \<^verbatim>\<open>datetime.fromisoformat(s)\<close> raises; \<^verbatim>\<open>KeyError k\<close> is a dictionary
  subscript on the missing key \<^verbatim>\<open>k\<close>; \<^verbatim>\<open>AttributeError a\<close> is an attribute
  read on \<^verbatim>\<open>None\<close>; \<^verbatim>\<open>OverflowError\<close> is raised when an int too large
  for a float meets a float in an arithmetic operation.
\<close>

datatype error =
    ValidationException string
  | NotFoundException string string
  | BusinessRuleException string "conflict list option"
  | ValueError string
  | InvalidIsoformat string
  | KeyError string
  | AttributeError string
  | OverflowError string

section \<open>Python numbers\<close>

text \<open>
  A price is a JSON number, in Python an \<^verbatim>\<open>int\<close> or a \<^verbatim>\<open>float\<close>. Ints
  are exact. A float is a value of the type \<open>'f\<close>; the arithmetic of floats belongs
  to the language and is an argument of the model, the record \<open>fl\<close> of its
  operations: the float \<^verbatim>\<open>0.0\<close>, the sum and the product of two floats (rounded
  as the machine rounds them), and the conversion \<^verbatim>\<open>float(n)\<close> of an int, which is
  \<open>None\<close> where Python raises \<^verbatim>\<open>OverflowError\<close>.
\<close>

datatype 'f number = IntNum int | FloatNum 'f

record 'f float_ops =
  fl_zero :: 'f
  fl_add :: "'f \<Rightarrow> 'f \<Rightarrow> 'f"
  fl_mul :: "'f \<Rightarrow> 'f \<Rightarrow> 'f"
  fl_of_int :: "int \<Rightarrow> 'f option"

text \<open>
  \<^verbatim>\<open>x * n\<close> for a number \<open>x\<close> and an int \<open>n\<close>, and \<^verbatim>\<open>x + y\<close> for two
  numbers: two ints give the exact int; an int that meets a float is converted first.
\<close>

definition to_float :: "'f float_ops \<Rightarrow> int \<Rightarrow> error + 'f" where
  "to_float fl n =
     (case fl_of_int fl n of
        None \<Rightarrow> Inl (OverflowError ''int too large to convert to float'')
      | Some y \<Rightarrow> Inr y)"

fun py_mul :: "'f float_ops \<Rightarrow> 'f number \<Rightarrow> int \<Rightarrow> error + 'f number" where
  "py_mul fl (IntNum a) n = Inr (IntNum (a * n))"
| "py_mul fl (FloatNum x) n =
     (case to_float fl n of Inl e \<Rightarrow> Inl e | Inr y \<Rightarrow> Inr (FloatNum (fl_mul fl x y)))"

fun py_add :: "'f float_ops \<Rightarrow> 'f number \<Rightarrow> 'f number \<Rightarrow> error + 'f number" where
  "py_add fl (IntNum a) (IntNum b) = Inr (IntNum (a + b))"
| "py_add fl (FloatNum x) (IntNum b) =
     (case to_float fl b of Inl e \<Rightarrow> Inl e | Inr y \<Rightarrow> Inr (FloatNum (fl_add fl x y)))"
| "py_add fl (IntNum a) (FloatNum y) =
     (case to_float fl a of Inl e \<Rightarrow> Inl e | Inr x \<Rightarrow> Inr (FloatNum (fl_add fl x y)))"
| "py_add fl (FloatNum x) (FloatNum y) = Inr (FloatNum (fl_add fl x y))"

text \<open>
  A product line of a request (a JSON object): a key that is absent is \<open>None\<close>.
\<close>

record 'f request_line =
  rl_product_id :: "string option"
  rl_quantity :: "int option"
  rl_name :: "string option"
  rl_price :: "'f number option"

text \<open>One element of the \<^verbatim>\<open>products\<close> column, as the factory builds it.\<close>

record 'f refund_product =
  rp_product_id :: string
  rp_quantity :: int
  rp_name :: string
  rp_price :: "'f number"
  rp_refund_amount :: "'f number"
  rp_delivery_date :: "string option"
  rp_eligibility :: string

text \<open>
  One element of the \<^verbatim>\<open>history\<close> column. The source stores the
  \<^verbatim>\<open>isoformat()\<close> of the clock reading; the model keeps the reading.
\<close>

record history_entry =
  h_action :: string
  h_timestamp :: datetime
  h_user_id :: string
  h_details :: "(string \<times> string) list"

text \<open>
  The columns of \<^verbatim>\<open>RefundCase\<close>. The constructor call of the factory gives no
  \<^verbatim>\<open>id\<close>, \<^verbatim>\<open>status\<close> or \<^verbatim>\<open>created_at\<close>: these columns get their
  defaults when the row is inserted. So an object that is not yet stored has the columns
  of the first record only, and a stored row has all of them.
  \<^verbatim>\<open>eligibility_status\<close> is unset until \<^verbatim>\<open>calculate_eligibility\<close> assigns it.
  Every read of \<^verbatim>\<open>history\<close> in the source is \<^verbatim>\<open>self.history or []\<close>, so
  an unset history is the empty list.
\<close>

record 'f unsaved_refund_case =
  support_case_id :: string
  customer_id :: string
  order_id :: string
  eligibility_status :: "eligibility_status option"
  total_refund_amount :: "'f number"
  processed_at :: "datetime option"
  rejection_reason :: "string option"
  agent_id :: "string option"
  products :: "'f refund_product list"
  history :: "history_entry list"

record 'f refund_case = "'f unsaved_refund_case" +
  refund_id :: string
  status :: refund_case_status
  created_at :: datetime

text \<open>
  One element of the eligible or ineligible bucket of an eligibility report. The keys
  \<^verbatim>\<open>delivery_date\<close>, \<^verbatim>\<open>days_since_delivery\<close>, \<^verbatim>\<open>quantity\<close> and
  \<^verbatim>\<open>price\<close> are present in some branches only.
\<close>

record 'f entry =
  e_product_id :: string
  e_eligible :: bool
  e_reason :: string
  e_delivery_date :: "string option"
  e_days_since_delivery :: "int option"
  e_quantity :: "int option"
  e_price :: "'f number option"

text \<open>The dictionary returned by \<^verbatim>\<open>RefundCase.calculate_eligibility\<close>.\<close>

record 'f eligibility_result =
  r_eligibility_status :: string
  r_eligible_products :: "'f entry list"
  r_ineligible_products :: "'f entry list"
  r_eligible_count :: nat
  r_ineligible_count :: nat

section \<open>Formatting an integer in an f-string\<close>

function str_nat :: "nat \<Rightarrow> string" where
  "str_nat n =
     (if n < 10 then [''0123456789'' ! n]
      else str_nat (n div 10) @ [''0123456789'' ! (n mod 10)])"
  by pat_completeness auto
termination
  by (relation "measure (\<lambda>n. n)") auto

declare str_nat.simps [simp del]

definition str_int :: "int \<Rightarrow> string" where
  "str_int i = (if i < 0 then CHR ''-'' # str_nat (nat (- i)) else str_nat (nat i))"

section \<open>RefundCase: history and transitions\<close>

definition add_history_entry ::
  "string \<Rightarrow> string \<Rightarrow> (string \<times> string) list \<Rightarrow> datetime \<Rightarrow>
   ('f, 'a) unsaved_refund_case_scheme \<Rightarrow> ('f, 'a) unsaved_refund_case_scheme" where
  "add_history_entry action user details now rc =
     rc\<lparr>history := history rc @
       [\<lparr>h_action = action, h_timestamp = now, h_user_id = user, h_details = details\<rparr>]\<rparr>"

text \<open>
  A method returns its outcome together with the object as it is left: an exception
  leaves the assignments made before it in place.
\<close>

definition approve_refund ::
  "string \<Rightarrow> datetime \<Rightarrow> datetime \<Rightarrow> 'f refund_case \<Rightarrow> (error + unit) \<times> 'f refund_case" where
  "approve_refund agent t_processed t_history rc =
     (if status rc \<noteq> PENDING
      then (Inl (ValueError ''Only pending refunds can be approved''), rc)
      else (Inr (),
        add_history_entry ''refund_approved'' agent [(''status'', ''Approved'')] t_history
          (rc\<lparr>status := APPROVED, processed_at := Some t_processed, agent_id := Some agent\<rparr>)))"

definition reject_refund ::
  "string \<Rightarrow> string \<Rightarrow> datetime \<Rightarrow> datetime \<Rightarrow> 'f refund_case \<Rightarrow>
   (error + unit) \<times> 'f refund_case" where
  "reject_refund agent reason t_processed t_history rc =
     (if status rc \<noteq> PENDING
      then (Inl (ValueError ''Only pending refunds can be rejected''), rc)
      else (Inr (),
        add_history_entry ''refund_rejected'' agent
          [(''status'', ''Rejected''), (''reason'', reason)] t_history
          (rc\<lparr>status := REJECTED, processed_at := Some t_processed, agent_id := Some agent,
              rejection_reason := Some reason\<rparr>)))"

definition complete_refund ::
  "datetime \<Rightarrow> 'f refund_case \<Rightarrow> (error + unit) \<times> 'f refund_case" where
  "complete_refund t_history rc =
     (if status rc \<noteq> APPROVED
      then (Inl (ValueError ''Only approved refunds can be completed''), rc)
      else (Inr (),
        add_history_entry ''refund_completed'' ''system'' [(''status'', ''Completed'')] t_history
          (rc\<lparr>status := COMPLETED\<rparr>)))"

section \<open>RefundCase.calculate\_eligibility\<close>

text \<open>
  \<^verbatim>\<open>datetime.fromisoformat(s).date()\<close> belongs to the Python library and is the
  argument \<open>fromiso\<close> of the model: \<open>fromiso s = None\<close> where it raises
  \<^verbatim>\<open>ValueError\<close>, otherwise the day of the parsed timestamp. \<open>today\<close> is
  \<^verbatim>\<open>datetime.utcnow().date()\<close>.

  The \<^verbatim>\<open>for\<close> loop over \<^verbatim>\<open>self.products\<close>, with the two buckets as
  accumulators. A date string that is \<^verbatim>\<open>None\<close> or empty is falsy.
\<close>

fun eligibility_loop ::
  "(string \<Rightarrow> int option) \<Rightarrow> int \<Rightarrow> (string \<rightharpoonup> string) \<Rightarrow> 'f refund_product list \<Rightarrow>
   'f entry list \<Rightarrow> 'f entry list \<Rightarrow> error + ('f entry list \<times> 'f entry list)" where
  "eligibility_loop fromiso today delivery_dates [] eligible ineligible = Inr (eligible, ineligible)"
| "eligibility_loop fromiso today delivery_dates (product # rest) eligible ineligible =
     (let product_id = rp_product_id product in
      case delivery_dates product_id of
        None \<Rightarrow>
          eligibility_loop fromiso today delivery_dates rest eligible
            (ineligible @ [\<lparr>e_product_id = product_id, e_eligible = False,
               e_reason = ''No delivery date available'', e_delivery_date = None,
               e_days_since_delivery = None, e_quantity = None, e_price = None\<rparr>])
      | Some delivery_date_str \<Rightarrow>
          if delivery_date_str = [] then
            eligibility_loop fromiso today delivery_dates rest eligible
              (ineligible @ [\<lparr>e_product_id = product_id, e_eligible = False,
                 e_reason = ''No delivery date available'', e_delivery_date = None,
                 e_days_since_delivery = None, e_quantity = None, e_price = None\<rparr>])
          else
            (case fromiso delivery_date_str of
               None \<Rightarrow> Inl (InvalidIsoformat delivery_date_str)
             | Some delivery_date \<Rightarrow>
                 (let days_since_delivery = today - delivery_date in
                  if days_since_delivery \<le> 14 then
                    eligibility_loop fromiso today delivery_dates rest
                      (eligible @ [\<lparr>e_product_id = product_id, e_eligible = True,
                         e_reason = ''Within 14-day refund window'',
                         e_delivery_date = Some delivery_date_str,
                         e_days_since_delivery = Some days_since_delivery,
                         e_quantity = None, e_price = None\<rparr>])
                      ineligible
                  else
                    eligibility_loop fromiso today delivery_dates rest eligible
                      (ineligible @ [\<lparr>e_product_id = product_id, e_eligible = False,
                         e_reason = ''Exceeds 14-day refund window by '' @
                           str_int (days_since_delivery - 14) @ '' days'',
                         e_delivery_date = Some delivery_date_str,
                         e_days_since_delivery = Some days_since_delivery,
                         e_quantity = None, e_price = None\<rparr>]))))"

definition overall_status :: "'f entry list \<Rightarrow> 'f entry list \<Rightarrow> eligibility_status" where
  "overall_status eligible ineligible =
     (if length ineligible = 0 then ELIGIBLE
      else if length eligible > 0 then PARTIALLY_ELIGIBLE
      else INELIGIBLE)"

definition calculate_eligibility ::
  "(string \<Rightarrow> int option) \<Rightarrow> int \<Rightarrow> (string \<rightharpoonup> string) \<Rightarrow>
   ('f, 'a) unsaved_refund_case_scheme \<Rightarrow>
   (error + 'f eligibility_result) \<times> ('f, 'a) unsaved_refund_case_scheme" where
  "calculate_eligibility fromiso today delivery_dates rc =
     (case eligibility_loop fromiso today delivery_dates (products rc) [] [] of
        Inl e \<Rightarrow> (Inl e, rc)
      | Inr (eligible, ineligible) \<Rightarrow>
          (let st = overall_status eligible ineligible in
           (Inr \<lparr>r_eligibility_status = eligibility_value st,
                 r_eligible_products = eligible,
                 r_ineligible_products = ineligible,
                 r_eligible_count = length eligible,
                 r_ineligible_count = length ineligible\<rparr>,
            rc\<lparr>eligibility_status := Some st\<rparr>)))"

section \<open>RefundCase.create\_from\_support\_case\<close>

text \<open>
  The loop that builds \<^verbatim>\<open>refund_products\<close> and \<^verbatim>\<open>total_amount\<close>. A subscript
  on an absent key raises \<^verbatim>\<open>KeyError\<close>; \<^verbatim>\<open>get\<close> has a default, for the price
  the float \<^verbatim>\<open>0.0\<close>. \<^verbatim>\<open>total_amount\<close> starts as the float \<^verbatim>\<open>0.0\<close> and each
  \<^verbatim>\<open>refund_amount\<close> is added to it in Python arithmetic.
\<close>

fun refund_products_loop ::
  "'f float_ops \<Rightarrow> (string \<rightharpoonup> string) \<Rightarrow> 'f request_line list \<Rightarrow> 'f refund_product list \<Rightarrow>
   'f number \<Rightarrow> error + ('f refund_product list \<times> 'f number)" where
  "refund_products_loop fl delivery_dates [] refund_products total_amount =
     Inr (refund_products, total_amount)"
| "refund_products_loop fl delivery_dates (product # rest) refund_products total_amount =
     (case rl_product_id product of
        None \<Rightarrow> Inl (KeyError ''product_id'')
      | Some product_id \<Rightarrow>
          (case rl_quantity product of
             None \<Rightarrow> Inl (KeyError ''quantity'')
           | Some quantity \<Rightarrow>
               (let price = (case rl_price product of
                               None \<Rightarrow> FloatNum (fl_zero fl) | Some x \<Rightarrow> x)
                in case py_mul fl price quantity of
                     Inl e \<Rightarrow> Inl e
                   | Inr refund_amount \<Rightarrow>
                       (case py_add fl total_amount refund_amount of
                          Inl e \<Rightarrow> Inl e
                        | Inr total_amount' \<Rightarrow>
                            refund_products_loop fl delivery_dates rest
                              (refund_products @
                                 [\<lparr>rp_product_id = product_id, rp_quantity = quantity,
                                   rp_name = (case rl_name product of
                                                None \<Rightarrow> [] | Some n \<Rightarrow> n),
                                   rp_price = price, rp_refund_amount = refund_amount,
                                   rp_delivery_date = delivery_dates product_id,
                                   rp_eligibility = ''Eligible''\<rparr>])
                              total_amount'))))"

text \<open>
  The factory. The object it builds and returns is not yet stored. \<open>today\<close> is the
  clock reading of \<^verbatim>\<open>calculate_eligibility\<close> and \<open>t_history\<close> the one of
  \<^verbatim>\<open>add_history_entry\<close>.
\<close>

definition create_from_support_case ::
  "(string \<Rightarrow> int option) \<Rightarrow> 'f float_ops \<Rightarrow> int \<Rightarrow> datetime \<Rightarrow>
   string \<Rightarrow> string \<Rightarrow> string \<Rightarrow> 'f request_line list \<Rightarrow> (string \<rightharpoonup> string) \<Rightarrow>
   error + 'f unsaved_refund_case" where
  "create_from_support_case fromiso fl today t_history sc_id cust ord lines delivery_dates =
     (case refund_products_loop fl delivery_dates lines [] (FloatNum (fl_zero fl)) of
        Inl e \<Rightarrow> Inl e
      | Inr (refund_products, total_amount) \<Rightarrow>
          (case calculate_eligibility fromiso today delivery_dates
                  \<lparr>support_case_id = sc_id, customer_id = cust, order_id = ord,
                   eligibility_status = None, total_refund_amount = total_amount,
                   processed_at = None, rejection_reason = None, agent_id = None,
                   products = refund_products, history = []\<rparr> of
             (Inl e, _) \<Rightarrow> Inl e
           | (Inr eligibility_result, refund_case) \<Rightarrow>
               Inr (add_history_entry ''refund_requested'' cust
                      [(''initial_status'', ''Pending''),
                       (''eligibility'', r_eligibility_status eligibility_result)]
                      t_history refund_case)))"

text \<open>
  The operations that can follow a creation, with their clock readings, and the object
  they leave.
\<close>

datatype operation =
    Approve string datetime datetime
  | Reject string string datetime datetime
  | Complete datetime
  | Recompute int "string \<rightharpoonup> string"

fun apply_operation ::
  "(string \<Rightarrow> int option) \<Rightarrow> 'f refund_case \<Rightarrow> operation \<Rightarrow> 'f refund_case" where
  "apply_operation fromiso rc (Approve agent t1 t2) = snd (approve_refund agent t1 t2 rc)"
| "apply_operation fromiso rc (Reject agent reason t1 t2) = snd (reject_refund agent reason t1 t2 rc)"
| "apply_operation fromiso rc (Complete t) = snd (complete_refund t rc)"
| "apply_operation fromiso rc (Recompute today dd) = snd (calculate_eligibility fromiso today dd rc)"

definition apply_operations ::
  "(string \<Rightarrow> int option) \<Rightarrow> 'f refund_case \<Rightarrow> operation list \<Rightarrow> 'f refund_case" where
  "apply_operations fromiso rc ops = foldl (apply_operation fromiso) rc ops"

section \<open>Persistence (repositories/refund\_repository.py)\<close>

text \<open>
  \<^verbatim>\<open>BaseRepository\<close>, the base class of the repository, is not among the sources.
  The spec gives the persistence store as \<^verbatim>\<open>get(id)\<close>,
  \<^verbatim>\<open>findByField(field, value, skip, limit)\<close>, \<^verbatim>\<open>create(record)\<close> and
  \<^verbatim>\<open>update(id, record)\<close>, storing and retrieving records by key and by indexed
  field. The store is the list of its rows.
\<close>

type_synonym 'f store = "'f refund_case list"

text \<open>
  Modelled from the spec: \<^verbatim>\<open>BaseRepository.find_by_id\<close> is missing; the spec's
  \<^verbatim>\<open>get(id)\<close> retrieves the record with that key, or nothing.
\<close>

definition find_by_id :: "'f store \<Rightarrow> string \<Rightarrow> 'f refund_case option" where
  "find_by_id st rid = find (\<lambda>r. refund_id r = rid) st"

text \<open>
  Modelled from the spec: \<^verbatim>\<open>BaseRepository.find_all_by_field\<close> is missing; the
  spec's \<^verbatim>\<open>findByField\<close> retrieves the records by an indexed field. The field is
  given by its selector, and a call without \<^verbatim>\<open>skip\<close> and \<^verbatim>\<open>limit\<close>
  returns every matching row (the spec has the conflict scan read all refund cases of
  the support case).
\<close>

definition find_all_by_field ::
  "'f store \<Rightarrow> ('f refund_case \<Rightarrow> 'a) \<Rightarrow> 'a \<Rightarrow> 'f refund_case list" where
  "find_all_by_field st field v = filter (\<lambda>r. field r = v) st"

text \<open>
  Modelled from the spec: \<^verbatim>\<open>BaseRepository.create\<close> is missing; the spec's
  \<^verbatim>\<open>create(record)\<close> stores the record, which is returned, and a new record has
  status Pending. The row gets the defaults that \<^verbatim>\<open>refund_case.py\<close> declares for
  the columns \<^verbatim>\<open>id\<close> (a fresh id, the argument \<open>new_id\<close>), \<^verbatim>\<open>status\<close>
  (\<^verbatim>\<open>PENDING\<close>) and \<^verbatim>\<open>created_at\<close> (the clock reading \<open>t_created\<close>).
\<close>

definition create ::
  "'f store \<Rightarrow> string \<Rightarrow> datetime \<Rightarrow> 'f unsaved_refund_case \<Rightarrow> 'f refund_case \<times> 'f store" where
  "create st new_id t_created rc =
     (let row = \<lparr>support_case_id = support_case_id rc, customer_id = customer_id rc,
                 order_id = order_id rc, eligibility_status = eligibility_status rc,
                 total_refund_amount = total_refund_amount rc,
                 processed_at = processed_at rc, rejection_reason = rejection_reason rc,
                 agent_id = agent_id rc, products = products rc, history = history rc,
                 refund_id = new_id, status = PENDING, created_at = t_created\<rparr>
      in (row, st @ [row]))"

text \<open>
  Modelled from the spec: \<^verbatim>\<open>BaseRepository.update\<close> is missing; the spec's
  \<^verbatim>\<open>update(id, record)\<close> stores the given column values under the key and the
  updated record is returned.
\<close>

definition update ::
  "'f store \<Rightarrow> string \<Rightarrow> 'f refund_case \<Rightarrow> 'f refund_case \<times> 'f store" where
  "update st rid d = (d, map (\<lambda>r. if refund_id r = rid then d else r) st)"

text \<open>
  \<^verbatim>\<open>RefundCase.to_dict\<close> copies every column (an enum by its \<^verbatim>\<open>.value\<close>); the
  model keeps the column values. Reading \<^verbatim>\<open>.value\<close> of an unset
  \<^verbatim>\<open>eligibility_status\<close> raises.
\<close>

definition to_dict :: "'f refund_case \<Rightarrow> error + 'f refund_case" where
  "to_dict rc =
     (case eligibility_status rc of
        None \<Rightarrow> Inl (AttributeError ''value'')
      | Some _ \<Rightarrow> Inr rc)"

definition find_by_support_case :: "'f store \<Rightarrow> string \<Rightarrow> 'f refund_case list" where
  "find_by_support_case st sc = find_all_by_field st support_case_id sc"

definition create_refund_case ::
  "(string \<Rightarrow> int option) \<Rightarrow> 'f float_ops \<Rightarrow> string \<Rightarrow> datetime \<Rightarrow> int \<Rightarrow> datetime \<Rightarrow>
   'f store \<Rightarrow> string \<Rightarrow> string \<Rightarrow> string \<Rightarrow> 'f request_line list \<Rightarrow> (string \<rightharpoonup> string) \<Rightarrow>
   (error + 'f refund_case) \<times> 'f store" where
  "create_refund_case fromiso fl new_id t_created today t_history st sc cust ord lines dd =
     (case create_from_support_case fromiso fl today t_history sc cust ord lines dd of
        Inl e \<Rightarrow> (Inl e, st)
      | Inr refund_case \<Rightarrow>
          (case create st new_id t_created refund_case of (r, st') \<Rightarrow> (Inr r, st')))"

text \<open>
  The three transitions of the repository. The status is a string enum, so the
  comparison with a string literal compares its value.
\<close>

definition repository_approve_refund ::
  "'f store \<Rightarrow> string \<Rightarrow> string \<Rightarrow> datetime \<Rightarrow> datetime \<Rightarrow>
   (error + 'f refund_case) \<times> 'f store" where
  "repository_approve_refund st rid agent t_processed t_history =
     (case find_by_id st rid of
        None \<Rightarrow> (Inl (NotFoundException ''RefundCase'' (''ID '' @ rid)), st)
      | Some refund_case \<Rightarrow>
          if status_value (status refund_case) \<noteq> ''Pending''
          then (Inl (BusinessRuleException ''Only pending refunds can be approved'' None), st)
          else (case approve_refund agent t_processed t_history refund_case of
                  (Inl e, _) \<Rightarrow> (Inl e, st)
                | (Inr _, refund_case') \<Rightarrow>
                    (case to_dict refund_case' of
                       Inl e \<Rightarrow> (Inl e, st)
                     | Inr d \<Rightarrow> (case update st rid d of (r, st') \<Rightarrow> (Inr r, st')))))"

definition repository_reject_refund ::
  "'f store \<Rightarrow> string \<Rightarrow> string \<Rightarrow> string \<Rightarrow> datetime \<Rightarrow> datetime \<Rightarrow>
   (error + 'f refund_case) \<times> 'f store" where
  "repository_reject_refund st rid agent reason t_processed t_history =
     (case find_by_id st rid of
        None \<Rightarrow> (Inl (NotFoundException ''RefundCase'' (''ID '' @ rid)), st)
      | Some refund_case \<Rightarrow>
          if status_value (status refund_case) \<noteq> ''Pending''
          then (Inl (BusinessRuleException ''Only pending refunds can be rejected'' None), st)
          else (case reject_refund agent reason t_processed t_history refund_case of
                  (Inl e, _) \<Rightarrow> (Inl e, st)
                | (Inr _, refund_case') \<Rightarrow>
                    (case to_dict refund_case' of
                       Inl e \<Rightarrow> (Inl e, st)
                     | Inr d \<Rightarrow> (case update st rid d of (r, st') \<Rightarrow> (Inr r, st')))))"

definition repository_complete_refund ::
  "'f store \<Rightarrow> string \<Rightarrow> datetime \<Rightarrow> (error + 'f refund_case) \<times> 'f store" where
  "repository_complete_refund st rid t_history =
     (case find_by_id st rid of
        None \<Rightarrow> (Inl (NotFoundException ''RefundCase'' (''ID '' @ rid)), st)
      | Some refund_case \<Rightarrow>
          if status_value (status refund_case) \<noteq> ''Approved''
          then (Inl (BusinessRuleException ''Only approved refunds can be completed'' None), st)
          else (case complete_refund t_history refund_case of
                  (Inl e, _) \<Rightarrow> (Inl e, st)
                | (Inr _, refund_case') \<Rightarrow>
                    (case to_dict refund_case' of
                       Inl e \<Rightarrow> (Inl e, st)
                     | Inr d \<Rightarrow> (case update st rid d of (r, st') \<Rightarrow> (Inr r, st')))))"

text \<open>\<^verbatim>\<open>validate_refund_request\<close>: the loop over the lines, then the whole check.\<close>

fun validate_lines :: "'f request_line list \<Rightarrow> error + unit" where
  "validate_lines [] = Inr ()"
| "validate_lines (product # rest) =
     (if (case rl_product_id product of None \<Rightarrow> True | Some pid \<Rightarrow> pid = [])
         \<or> (case rl_quantity product of None \<Rightarrow> True | Some q \<Rightarrow> q = 0 \<or> q < 1)
      then Inl (ValidationException
                  ''Each product must have a valid product_id and quantity >= 1'')
      else validate_lines rest)"

definition validate_refund_request ::
  "string \<Rightarrow> string \<Rightarrow> 'f request_line list \<Rightarrow> error + unit" where
  "validate_refund_request sc cust lines =
     (if sc = [] \<or> cust = []
      then Inl (ValidationException ''Support case ID and customer ID are required'')
      else if lines = [] \<or> length lines = 0
      then Inl (ValidationException ''At least one product must be specified for refund'')
      else validate_lines lines)"

text \<open>
  \<^verbatim>\<open>check_existing_refunds\<close>: the nested loops append one triple for each line of
  each active refund case whose product id is requested. The key
  \<^verbatim>\<open>conflicting_refunds\<close> is present only when there are conflicts.
\<close>

record conflict_check =
  cc_has_conflicts :: bool
  cc_conflicting_refunds :: "conflict list option"
  cc_message :: string

definition conflicts_of :: "string list \<Rightarrow> 'f refund_case \<Rightarrow> conflict list" where
  "conflicts_of product_ids refund_case =
     (if status_value (status refund_case) \<in> set [''Pending'', ''Approved'']
      then map (\<lambda>product. \<lparr>c_refund_id = refund_id refund_case,
                             c_product_id = rp_product_id product,
                             c_status = status refund_case\<rparr>)
             (filter (\<lambda>product. rp_product_id product \<in> set product_ids)
                (products refund_case))
      else [])"

definition check_existing_refunds ::
  "'f store \<Rightarrow> string \<Rightarrow> string list \<Rightarrow> conflict_check" where
  "check_existing_refunds st sc product_ids =
     (let conflicting_refunds = concat (map (conflicts_of product_ids) (find_by_support_case st sc))
      in if conflicting_refunds \<noteq> []
         then \<lparr>cc_has_conflicts = True, cc_conflicting_refunds = Some conflicting_refunds,
               cc_message = ''Some products already have active refund requests''\<rparr>
         else \<lparr>cc_has_conflicts = False, cc_conflicting_refunds = None,
               cc_message = ''No conflicting refund requests found''\<rparr>)"

section \<open>Service (services/refund\_service.py)\<close>

text \<open>
  A support case and its product lines, owned by the support-case subsystem and only
  read here. The spec gives the products of a support case as line data by product id,
  so a line always has its \<^verbatim>\<open>product_id\<close>. The line data is a dictionary:
  \<^verbatim>\<open>quantity\<close> is read by subscript and \<^verbatim>\<open>price\<close> with a default, and
  either may be absent.
\<close>

record 'f sc_product =
  sp_product_id :: string
  sp_quantity :: "int option"
  sp_price :: "'f number option"

record 'f support_case =
  sc_customer_id :: string
  sc_order_id :: string
  sc_status :: string
  sc_products :: "'f sc_product list"

text \<open>
  \<^verbatim>\<open>support_repository.find_by_id\<close> is the argument \<open>supports\<close>, a map from
  support case ids to support cases. The cache and the logger have no part in the
  results and are left out.

  The comprehension \<^verbatim>\<open>[p["product_id"] for p in products]\<close>:
\<close>

fun product_ids_of :: "'f request_line list \<Rightarrow> error + string list" where
  "product_ids_of [] = Inr []"
| "product_ids_of (p # ps) =
     (case rl_product_id p of
        None \<Rightarrow> Inl (KeyError ''product_id'')
      | Some pid \<Rightarrow>
          (case product_ids_of ps of Inl e \<Rightarrow> Inl e | Inr pids \<Rightarrow> Inr (pid # pids)))"

definition create_refund_request ::
  "(string \<Rightarrow> int option) \<Rightarrow> 'f float_ops \<Rightarrow> string \<Rightarrow> datetime \<Rightarrow> int \<Rightarrow> datetime \<Rightarrow>
   (string \<rightharpoonup> 'f support_case) \<Rightarrow> 'f store \<Rightarrow>
   string \<Rightarrow> string \<Rightarrow> 'f request_line list \<Rightarrow> (string \<rightharpoonup> string) \<Rightarrow>
   (error + 'f refund_case) \<times> 'f store" where
  "create_refund_request fromiso fl new_id t_created today t_history supports st
     sc cust lines dd =
     (case validate_refund_request sc cust lines of
        Inl e \<Rightarrow> (Inl e, st)
      | Inr _ \<Rightarrow>
     (case supports sc of
        None \<Rightarrow> (Inl (NotFoundException ''SupportCase'' (''ID '' @ sc)), st)
      | Some support_case \<Rightarrow>
          if sc_customer_id support_case \<noteq> cust
          then (Inl (BusinessRuleException
                       ''Access denied: Customer does not own this support case'' None), st)
          else if sc_status support_case \<noteq> ''Open''
          then (Inl (BusinessRuleException
                       ''Refund requests can only be created from open support cases'' None), st)
          else
            (case product_ids_of lines of
               Inl e \<Rightarrow> (Inl e, st)
             | Inr product_ids \<Rightarrow>
                 (let conflict_check = check_existing_refunds st sc product_ids in
                  if cc_has_conflicts conflict_check
                  then (case cc_conflicting_refunds conflict_check of
                          None \<Rightarrow> (Inl (KeyError ''conflicting_refunds''), st)
                        | Some cs \<Rightarrow>
                            (Inl (BusinessRuleException
                                    ''Some products already have active refund requests''
                                    (Some cs)), st))
                  else create_refund_case fromiso fl new_id t_created today t_history st
                         sc cust (sc_order_id support_case) lines dd))))"

definition get_refund_case :: "'f store \<Rightarrow> string \<Rightarrow> string \<Rightarrow> error + 'f refund_case" where
  "get_refund_case st rid cust =
     (case find_by_id st rid of
        None \<Rightarrow> Inl (NotFoundException ''RefundCase'' (''ID '' @ rid))
      | Some refund_case \<Rightarrow>
          if customer_id refund_case \<noteq> cust
          then Inl (BusinessRuleException
                      ''Access denied: Customer does not own this refund case'' None)
          else Inr refund_case)"

definition get_refund_cases_by_support_case ::
  "(string \<rightharpoonup> 'f support_case) \<Rightarrow> 'f store \<Rightarrow> string \<Rightarrow> string \<Rightarrow>
   error + 'f refund_case list" where
  "get_refund_cases_by_support_case supports st sc cust =
     (case supports sc of
        None \<Rightarrow> Inl (BusinessRuleException
                       ''Access denied: Customer does not own this support case'' None)
      | Some support_case \<Rightarrow>
          if sc_customer_id support_case \<noteq> cust
          then Inl (BusinessRuleException
                      ''Access denied: Customer does not own this support case'' None)
          else Inr (find_by_support_case st sc))"

text \<open>
  \<^verbatim>\<open>validate_refund_eligibility\<close>. The dictionary comprehension over the support
  case's products keeps the last line of each product id. In the loop, the
  \<^verbatim>\<open>try\<close> block turns every exception raised inside it into an entry of the
  ineligible bucket with the reason "Invalid delivery date format": the one of
  \<^verbatim>\<open>fromisoformat\<close>, and the \<^verbatim>\<open>KeyError\<close> of \<^verbatim>\<open>product["quantity"]\<close>,
  which is evaluated while the entry of either branch is built.
\<close>

definition support_case_products :: "'f support_case \<Rightarrow> (string \<rightharpoonup> 'f sc_product)" where
  "support_case_products support_case =
     map_of (rev (map (\<lambda>p. (sp_product_id p, p)) (sc_products support_case)))"

fun validate_loop ::
  "(string \<Rightarrow> int option) \<Rightarrow> int \<Rightarrow> (string \<rightharpoonup> string) \<Rightarrow> (string \<rightharpoonup> 'f sc_product) \<Rightarrow>
   string list \<Rightarrow> 'f entry list \<Rightarrow> 'f entry list \<Rightarrow> 'f entry list \<times> 'f entry list" where
  "validate_loop fromiso today delivery_dates scp [] eligible ineligible = (eligible, ineligible)"
| "validate_loop fromiso today delivery_dates scp (product_id # rest) eligible ineligible =
     (case scp product_id of
        None \<Rightarrow>
          validate_loop fromiso today delivery_dates scp rest eligible
            (ineligible @ [\<lparr>e_product_id = product_id, e_eligible = False,
               e_reason = ''Product not found in support case'', e_delivery_date = None,
               e_days_since_delivery = None, e_quantity = None, e_price = None\<rparr>])
      | Some product \<Rightarrow>
          (case delivery_dates product_id of
             None \<Rightarrow>
               validate_loop fromiso today delivery_dates scp rest eligible
                 (ineligible @ [\<lparr>e_product_id = product_id, e_eligible = False,
                    e_reason = ''No delivery date available for product'',
                    e_delivery_date = None, e_days_since_delivery = None,
                    e_quantity = None, e_price = None\<rparr>])
           | Some delivery_date_str \<Rightarrow>
               if delivery_date_str = [] then
                 validate_loop fromiso today delivery_dates scp rest eligible
                   (ineligible @ [\<lparr>e_product_id = product_id, e_eligible = False,
                      e_reason = ''No delivery date available for product'',
                      e_delivery_date = None, e_days_since_delivery = None,
                      e_quantity = None, e_price = None\<rparr>])
               else
                 (case fromiso delivery_date_str of
                    None \<Rightarrow>
                      validate_loop fromiso today delivery_dates scp rest eligible
                        (ineligible @ [\<lparr>e_product_id = product_id, e_eligible = False,
                           e_reason = ''Invalid delivery date format'',
                           e_delivery_date = None, e_days_since_delivery = None,
                           e_quantity = None, e_price = None\<rparr>])
                  | Some delivery_date \<Rightarrow>
                      (let days_since_delivery = today - delivery_date in
                       if days_since_delivery \<le> 14 then
                         (case sp_quantity product of
                            None \<Rightarrow>
                              validate_loop fromiso today delivery_dates scp rest eligible
                                (ineligible @ [\<lparr>e_product_id = product_id,
                                   e_eligible = False,
                                   e_reason = ''Invalid delivery date format'',
                                   e_delivery_date = None, e_days_since_delivery = None,
                                   e_quantity = None, e_price = None\<rparr>])
                          | Some quantity \<Rightarrow>
                              validate_loop fromiso today delivery_dates scp rest
                                (eligible @ [\<lparr>e_product_id = product_id, e_eligible = True,
                                   e_reason = ''Within 14-day refund window'',
                                   e_delivery_date = Some delivery_date_str,
                                   e_days_since_delivery = Some days_since_delivery,
                                   e_quantity = Some quantity,
                                   e_price = Some (case sp_price product of
                                                     None \<Rightarrow> IntNum 0 | Some x \<Rightarrow> x)\<rparr>])
                                ineligible)
                       else
                         (case sp_quantity product of
                            None \<Rightarrow>
                              validate_loop fromiso today delivery_dates scp rest eligible
                                (ineligible @ [\<lparr>e_product_id = product_id,
                                   e_eligible = False,
                                   e_reason = ''Invalid delivery date format'',
                                   e_delivery_date = None, e_days_since_delivery = None,
                                   e_quantity = None, e_price = None\<rparr>])
                          | Some quantity \<Rightarrow>
                              validate_loop fromiso today delivery_dates scp rest eligible
                                (ineligible @ [\<lparr>e_product_id = product_id,
                                   e_eligible = False,
                                   e_reason = ''Exceeds 14-day refund window by '' @
                                     str_int (days_since_delivery - 14) @ '' days'',
                                   e_delivery_date = Some delivery_date_str,
                                   e_days_since_delivery = Some days_since_delivery,
                                   e_quantity = Some quantity,
                                   e_price = Some (case sp_price product of
                                                     None \<Rightarrow> IntNum 0
                                                   | Some x \<Rightarrow> x)\<rparr>]))))))"

text \<open>
  \<^verbatim>\<open>sum(p["price"] * p["quantity"] for p in bucket)\<close>: the subscripts raise
  \<^verbatim>\<open>KeyError\<close> on an entry without the key. The built-in \<^verbatim>\<open>sum\<close> starts from
  the int \<^verbatim>\<open>0\<close> and adds the values from the left as they are produced (CPython
  before 3.12; later versions compensate the rounding of a sum of floats, which no
  statement below depends on).
\<close>

fun sum_amounts :: "'f float_ops \<Rightarrow> 'f entry list \<Rightarrow> 'f number \<Rightarrow> error + 'f number" where
  "sum_amounts fl [] acc = Inr acc"
| "sum_amounts fl (p # ps) acc =
     (case e_price p of
        None \<Rightarrow> Inl (KeyError ''price'')
      | Some price \<Rightarrow>
          (case e_quantity p of
             None \<Rightarrow> Inl (KeyError ''quantity'')
           | Some quantity \<Rightarrow>
               (case py_mul fl price quantity of
                  Inl e \<Rightarrow> Inl e
                | Inr amount \<Rightarrow>
                    (case py_add fl acc amount of
                       Inl e \<Rightarrow> Inl e
                     | Inr acc' \<Rightarrow> sum_amounts fl ps acc'))))"

record 'f eligibility_check =
  v_eligibility_status :: string
  v_eligible_products :: "'f entry list"
  v_ineligible_products :: "'f entry list"
  v_all_eligible :: bool
  v_total_eligible_amount :: "'f number"
  v_total_ineligible_amount :: "'f number"

definition validate_refund_eligibility ::
  "(string \<Rightarrow> int option) \<Rightarrow> 'f float_ops \<Rightarrow> int \<Rightarrow> (string \<rightharpoonup> 'f support_case) \<Rightarrow>
   string \<Rightarrow> string \<Rightarrow> string list \<Rightarrow> (string \<rightharpoonup> string) \<Rightarrow> error + 'f eligibility_check" where
  "validate_refund_eligibility fromiso fl today supports sc cust product_ids dd =
     (case supports sc of
        None \<Rightarrow> Inl (BusinessRuleException
                       ''Access denied: Customer does not own this support case'' None)
      | Some support_case \<Rightarrow>
          if sc_customer_id support_case \<noteq> cust
          then Inl (BusinessRuleException
                      ''Access denied: Customer does not own this support case'' None)
          else
            (case validate_loop fromiso today dd (support_case_products support_case)
                    product_ids [] [] of
               (eligible, ineligible) \<Rightarrow>
                 (let eligibility_status =
                        (if length ineligible = 0 then ''Eligible''
                         else if length eligible > 0 then ''Partially Eligible''
                         else ''Ineligible'')
                  in case sum_amounts fl eligible (IntNum 0) of
                       Inl e \<Rightarrow> Inl e
                     | Inr total_eligible \<Rightarrow>
                         (case sum_amounts fl ineligible (IntNum 0) of
                            Inl e \<Rightarrow> Inl e
                          | Inr total_ineligible \<Rightarrow>
                              Inr \<lparr>v_eligibility_status = eligibility_status,
                                   v_eligible_products = eligible,
                                   v_ineligible_products = ineligible,
                                   v_all_eligible = (length ineligible = 0),
                                   v_total_eligible_amount = total_eligible,
                                   v_total_ineligible_amount = total_ineligible\<rparr>))))"

text \<open>
  A sample of \<^verbatim>\<open>datetime.fromisoformat(s).date()\<close> for the examples: three dates
  in ISO format with their day numbers; every other string of the examples is one that
  the library refuses.
\<close>

definition fromiso_sample :: "string \<Rightarrow> int option" where
  "fromiso_sample s =
     (if s = ''2024-03-01'' then Some 738946
      else if s = ''2024-03-10'' then Some 738955
      else if s = ''2024-03-15'' then Some 738960
      else None)"

section \<open>Example values\<close>

text \<open>
  A sample of float arithmetic for the examples: the floats whose value is an integer,
  written as ints. A float (an IEEE 754 double) has 53 significant bits.
  \<open>round53\<close> rounds an integer to the nearest integer with at most 53 significant
  bits, a tie going to the one whose last kept bit is 0. That is the value of
  \<^verbatim>\<open>float(n)\<close>, and of the sum and the product of two integral floats, as long as
  the result is below \<open>2 ^ 1024\<close> in magnitude; \<^verbatim>\<open>float(n)\<close> raises
  \<^verbatim>\<open>OverflowError\<close> from there on.
\<close>

function bit_length :: "int \<Rightarrow> nat" where
  "bit_length n = (if n \<le> 0 then 0 else Suc (bit_length (n div 2)))"
  by pat_completeness auto
termination
  by (relation "measure nat") auto

declare bit_length.simps [simp del]

definition round53 :: "int \<Rightarrow> int" where
  "round53 n =
     (let a = abs n; k = bit_length a - 53 in
      if k = 0 then n
      else (let m = 2 ^ k; q = a div m; r = a mod m; h = m div 2;
                q' = (if r < h then q else if h < r then q + 1
                      else if even q then q else q + 1)
            in sgn n * (q' * m)))"

definition float_sample :: "int float_ops" where
  "float_sample =
     \<lparr>fl_zero = 0,
      fl_add = (\<lambda>x y. round53 (x + y)),
      fl_mul = (\<lambda>x y. round53 (x * y)),
      fl_of_int = (\<lambda>n. if abs (round53 n) < 2 ^ 1024 then Some (round53 n) else None)\<rparr>"

text \<open>
  A clock reading on 2024-03-15, and a stored refund case as creation makes it for one
  line of two units at price 10, in a given status.
\<close>

definition example_time :: datetime where
  "example_time = \<lparr>dt_date = 738960, dt_time = 0\<rparr>"

definition example_case :: "refund_case_status \<Rightarrow> int refund_case" where
  "example_case s =
     \<lparr>support_case_id = ''SC1'', customer_id = ''C1'', order_id = ''O1'',
      eligibility_status = Some ELIGIBLE, total_refund_amount = FloatNum 20,
      processed_at = None, rejection_reason = None, agent_id = None,
      products = [\<lparr>rp_product_id = ''P1'', rp_quantity = 2, rp_name = [],
                    rp_price = IntNum 10, rp_refund_amount = IntNum 20,
                    rp_delivery_date = Some ''2024-03-10'',
                    rp_eligibility = ''Eligible''\<rparr>],
      history = [\<lparr>h_action = ''refund_requested'', h_timestamp = example_time,
                   h_user_id = ''C1'',
                   h_details = [(''initial_status'', ''Pending''),
                                (''eligibility'', ''Eligible'')]\<rparr>],
      refund_id = ''R1'', status = s, created_at = example_time\<rparr>"

text \<open>
  The customer's request for that line, the support case it refers to, and a request
  for \<open>2 ^ 53 + 1\<close> units at price 1.
\<close>

definition example_line :: "int request_line" where
  "example_line =
     \<lparr>rl_product_id = Some ''P1'', rl_quantity = Some 2, rl_name = None,
      rl_price = Some (IntNum 10)\<rparr>"

definition example_support_case :: "string \<Rightarrow> int support_case" where
  "example_support_case s =
     \<lparr>sc_customer_id = ''C1'', sc_order_id = ''O1'', sc_status = s,
      sc_products = [\<lparr>sp_product_id = ''P1'', sp_quantity = Some 2,
                       sp_price = Some (IntNum 10)\<rparr>]\<rparr>"

definition example_large_line :: "int request_line" where
  "example_large_line =
     \<lparr>rl_product_id = Some ''P1'', rl_quantity = Some 9007199254740993, rl_name = None,
      rl_price = Some (IntNum 1)\<rparr>"

section \<open>Notions used in the statements\<close>

text \<open>A bucket lists a product id when one of its entries is about that product.\<close>

definition listed :: "string \<Rightarrow> 'f entry list \<Rightarrow> bool" where
  "listed product_id bucket \<longleftrightarrow> (\<exists>e \<in> set bucket. e_product_id e = product_id)"

text \<open>
  The running total of the submitted lines: price times quantity of each line, added in
  order to the amount so far, in Python arithmetic; a line without price counts as the
  float 0.0.
\<close>

fun running_total ::
  "'f float_ops \<Rightarrow> 'f number \<Rightarrow> 'f request_line list \<Rightarrow> error + 'f number" where
  "running_total fl acc [] = Inr acc"
| "running_total fl acc (l # ls) =
     (case rl_quantity l of
        None \<Rightarrow> Inl (KeyError ''quantity'')
      | Some quantity \<Rightarrow>
          (case py_mul fl (case rl_price l of None \<Rightarrow> FloatNum (fl_zero fl) | Some x \<Rightarrow> x)
                  quantity of
             Inl e \<Rightarrow> Inl e
           | Inr amount \<Rightarrow>
               (case py_add fl acc amount of
                  Inl e \<Rightarrow> Inl e
                | Inr acc' \<Rightarrow> running_total fl acc' ls)))"

section \<open>The sample arithmetic\<close>

lemma round53_examples:
  "round53 0 = 0" "round53 20 = 20"
  "round53 9007199254740992 = 9007199254740992"
  "round53 9007199254740993 = 9007199254740992"
  by code_simp+

lemma float_sample_examples:
  "fl_zero float_sample = 0"
  "to_float float_sample 20 = Inr 20"
  "fl_add float_sample 0 20 = 20"
  "to_float float_sample 9007199254740993 = Inr 9007199254740992"
  "fl_add float_sample 0 9007199254740992 = 9007199254740992"
  by (simp_all add: float_sample_def to_float_def round53_examples)

section \<open>The transitions and their guards\<close>

lemma status_value_Pending: "status_value s = ''Pending'' \<longleftrightarrow> s = PENDING"
  by (cases s) simp_all

lemma status_value_Approved: "status_value s = ''Approved'' \<longleftrightarrow> s = APPROVED"
  by (cases s) simp_all

lemma approve_refund_guard:
  "status rc \<noteq> PENDING \<Longrightarrow>
     approve_refund agent t1 t2 rc = (Inl (ValueError ''Only pending refunds can be approved''), rc)"
  by (simp add: approve_refund_def)

lemma approve_refund_ok:
  "status rc = PENDING \<Longrightarrow>
     approve_refund agent t1 t2 rc =
       (Inr (), rc\<lparr>status := APPROVED, processed_at := Some t1, agent_id := Some agent,
          history := history rc @ [\<lparr>h_action = ''refund_approved'', h_timestamp = t2,
             h_user_id = agent, h_details = [(''status'', ''Approved'')]\<rparr>]\<rparr>)"
  by (simp add: approve_refund_def add_history_entry_def)

lemma reject_refund_guard:
  "status rc \<noteq> PENDING \<Longrightarrow>
     reject_refund agent reason t1 t2 rc =
       (Inl (ValueError ''Only pending refunds can be rejected''), rc)"
  by (simp add: reject_refund_def)

lemma reject_refund_ok:
  "status rc = PENDING \<Longrightarrow>
     reject_refund agent reason t1 t2 rc =
       (Inr (), rc\<lparr>status := REJECTED, processed_at := Some t1, agent_id := Some agent,
          rejection_reason := Some reason,
          history := history rc @ [\<lparr>h_action = ''refund_rejected'', h_timestamp = t2,
             h_user_id = agent,
             h_details = [(''status'', ''Rejected''), (''reason'', reason)]\<rparr>]\<rparr>)"
  by (simp add: reject_refund_def add_history_entry_def)

lemma complete_refund_guard:
  "status rc \<noteq> APPROVED \<Longrightarrow>
     complete_refund t rc = (Inl (ValueError ''Only approved refunds can be completed''), rc)"
  by (simp add: complete_refund_def)

lemma complete_refund_ok:
  "status rc = APPROVED \<Longrightarrow>
     complete_refund t rc =
       (Inr (), rc\<lparr>status := COMPLETED,
          history := history rc @ [\<lparr>h_action = ''refund_completed'', h_timestamp = t,
             h_user_id = ''system'', h_details = [(''status'', ''Completed'')]\<rparr>]\<rparr>)"
  by (simp add: complete_refund_def add_history_entry_def)

lemma method_succeeds_iff:
  "fst (approve_refund agent t1 t2 rc) = Inr () \<longleftrightarrow> status rc = PENDING"
  "fst (reject_refund agent reason t1 t2 rc) = Inr () \<longleftrightarrow> status rc = PENDING"
  "fst (complete_refund t2 rc) = Inr () \<longleftrightarrow> status rc = APPROVED"
  by (simp_all add: approve_refund_def reject_refund_def complete_refund_def)

lemma repository_approve_wrong_state:
  "find_by_id st rid = Some rc \<Longrightarrow> status rc \<noteq> PENDING \<Longrightarrow>
     repository_approve_refund st rid agent t1 t2 =
       (Inl (BusinessRuleException ''Only pending refunds can be approved'' None), st)"
  by (simp add: repository_approve_refund_def status_value_Pending)

lemma repository_reject_wrong_state:
  "find_by_id st rid = Some rc \<Longrightarrow> status rc \<noteq> PENDING \<Longrightarrow>
     repository_reject_refund st rid agent reason t1 t2 =
       (Inl (BusinessRuleException ''Only pending refunds can be rejected'' None), st)"
  by (simp add: repository_reject_refund_def status_value_Pending)

lemma repository_complete_wrong_state:
  "find_by_id st rid = Some rc \<Longrightarrow> status rc \<noteq> APPROVED \<Longrightarrow>
     repository_complete_refund st rid t =
       (Inl (BusinessRuleException ''Only approved refunds can be completed'' None), st)"
  by (simp add: repository_complete_refund_def status_value_Approved)

lemma find_by_id_refund_id: "find_by_id st rid = Some rc \<Longrightarrow> refund_id rc = rid"
  unfolding find_by_id_def by (induction st) (auto split: if_splits)

lemma find_by_id_update:
  "find_by_id st rid = Some rc \<Longrightarrow> refund_id d = rid \<Longrightarrow>
     find_by_id (snd (update st rid d)) rid = Some d"
  unfolding find_by_id_def update_def by (induction st) (auto split: if_splits)

lemma repository_approve_stored:
  assumes "find_by_id st rid = Some rc" and "status rc = PENDING"
    and "eligibility_status rc \<noteq> None"
  shows "\<exists>r st'. repository_approve_refund st rid agent t1 t2 = (Inr r, st') \<and>
           r = snd (approve_refund agent t1 t2 rc) \<and> status r = APPROVED \<and>
           find_by_id st' rid = Some r"
proof -
  let ?r = "snd (approve_refund agent t1 t2 rc)"
  have id: "refund_id ?r = rid"
    using assms(1,2) by (simp add: approve_refund_ok find_by_id_refund_id)
  have run: "repository_approve_refund st rid agent t1 t2 = (Inr ?r, snd (update st rid ?r))"
    using assms by (auto simp add: repository_approve_refund_def status_value_Pending
        approve_refund_ok to_dict_def update_def)
  have "find_by_id (snd (update st rid ?r)) rid = Some ?r"
    using find_by_id_update [OF assms(1) id] .
  moreover have "status ?r = APPROVED"
    using assms(2) by (simp add: approve_refund_ok)
  ultimately show ?thesis using run by simp
qed

lemma repository_reject_stored:
  assumes "find_by_id st rid = Some rc" and "status rc = PENDING"
    and "eligibility_status rc \<noteq> None"
  shows "\<exists>r st'. repository_reject_refund st rid agent reason t1 t2 = (Inr r, st') \<and>
           r = snd (reject_refund agent reason t1 t2 rc) \<and> status r = REJECTED \<and>
           find_by_id st' rid = Some r"
proof -
  let ?r = "snd (reject_refund agent reason t1 t2 rc)"
  have id: "refund_id ?r = rid"
    using assms(1,2) by (simp add: reject_refund_ok find_by_id_refund_id)
  have run: "repository_reject_refund st rid agent reason t1 t2 =
      (Inr ?r, snd (update st rid ?r))"
    using assms by (auto simp add: repository_reject_refund_def status_value_Pending
        reject_refund_ok to_dict_def update_def)
  have "find_by_id (snd (update st rid ?r)) rid = Some ?r"
    using find_by_id_update [OF assms(1) id] .
  moreover have "status ?r = REJECTED"
    using assms(2) by (simp add: reject_refund_ok)
  ultimately show ?thesis using run by simp
qed

lemma repository_complete_stored:
  assumes "find_by_id st rid = Some rc" and "status rc = APPROVED"
    and "eligibility_status rc \<noteq> None"
  shows "\<exists>r st'. repository_complete_refund st rid t = (Inr r, st') \<and>
           r = snd (complete_refund t rc) \<and> status r = COMPLETED \<and>
           find_by_id st' rid = Some r"
proof -
  let ?r = "snd (complete_refund t rc)"
  have id: "refund_id ?r = rid"
    using assms(1,2) by (simp add: complete_refund_ok find_by_id_refund_id)
  have run: "repository_complete_refund st rid t = (Inr ?r, snd (update st rid ?r))"
    using assms by (auto simp add: repository_complete_refund_def status_value_Approved
        complete_refund_ok to_dict_def update_def)
  have "find_by_id (snd (update st rid ?r)) rid = Some ?r"
    using find_by_id_update [OF assms(1) id] .
  moreover have "status ?r = COMPLETED"
    using assms(2) by (simp add: complete_refund_ok)
  ultimately show ?thesis using run by simp
qed

text \<open>
  Claim C1. For a stored refund case (with its eligibility status set, as the factory
  leaves it), the repository's approve and reject succeed exactly when the status is
  Pending and complete exactly when it is Approved. From any other status the call
  fails with the business-rule exception whose message names the one valid source state,
  and the store is returned as it was; a successful call stores the case in its new
  status, so no call is a silent no-op. From Rejected and Completed all three fail.
  The methods of the model have the same guards; the repository's check precedes them.
\<close>

theorem transitions_guarded_by_status:
  assumes found: "find_by_id st rid = Some rc"
    and elig: "eligibility_status rc \<noteq> None"
  shows
    "((\<exists>r st'. repository_approve_refund st rid agent t1 t2 = (Inr r, st')) \<longleftrightarrow> status rc = PENDING)
   \<and> ((\<exists>r st'. repository_reject_refund st rid agent reason t1 t2 = (Inr r, st')) \<longleftrightarrow> status rc = PENDING)
   \<and> ((\<exists>r st'. repository_complete_refund st rid t2 = (Inr r, st')) \<longleftrightarrow> status rc = APPROVED)
   \<and> (status rc \<noteq> PENDING \<longrightarrow>
        repository_approve_refund st rid agent t1 t2 =
          (Inl (BusinessRuleException ''Only pending refunds can be approved'' None), st)
      \<and> repository_reject_refund st rid agent reason t1 t2 =
          (Inl (BusinessRuleException ''Only pending refunds can be rejected'' None), st))
   \<and> (status rc \<noteq> APPROVED \<longrightarrow>
        repository_complete_refund st rid t2 =
          (Inl (BusinessRuleException ''Only approved refunds can be completed'' None), st))
   \<and> (status rc = PENDING \<longrightarrow>
        (\<exists>r st'. repository_approve_refund st rid agent t1 t2 = (Inr r, st') \<and>
           status r = APPROVED \<and> find_by_id st' rid = Some r)
      \<and> (\<exists>r st'. repository_reject_refund st rid agent reason t1 t2 = (Inr r, st') \<and>
           status r = REJECTED \<and> find_by_id st' rid = Some r))
   \<and> (status rc = APPROVED \<longrightarrow>
        (\<exists>r st'. repository_complete_refund st rid t2 = (Inr r, st') \<and>
           status r = COMPLETED \<and> find_by_id st' rid = Some r))
   \<and> (status rc = REJECTED \<or> status rc = COMPLETED \<longrightarrow>
        (\<exists>e. fst (repository_approve_refund st rid agent t1 t2) = Inl e)
      \<and> (\<exists>e. fst (repository_reject_refund st rid agent reason t1 t2) = Inl e)
      \<and> (\<exists>e. fst (repository_complete_refund st rid t2) = Inl e))
   \<and> (fst (approve_refund agent t1 t2 rc) = Inr () \<longleftrightarrow> status rc = PENDING)
   \<and> (fst (reject_refund agent reason t1 t2 rc) = Inr () \<longleftrightarrow> status rc = PENDING)
   \<and> (fst (complete_refund t2 rc) = Inr () \<longleftrightarrow> status rc = APPROVED)"
proof -
  have a_bad: "status rc \<noteq> PENDING \<Longrightarrow>
      repository_approve_refund st rid agent t1 t2 =
        (Inl (BusinessRuleException ''Only pending refunds can be approved'' None), st)"
    using repository_approve_wrong_state [OF found] .
  have r_bad: "status rc \<noteq> PENDING \<Longrightarrow>
      repository_reject_refund st rid agent reason t1 t2 =
        (Inl (BusinessRuleException ''Only pending refunds can be rejected'' None), st)"
    using repository_reject_wrong_state [OF found] .
  have c_bad: "status rc \<noteq> APPROVED \<Longrightarrow>
      repository_complete_refund st rid t2 =
        (Inl (BusinessRuleException ''Only approved refunds can be completed'' None), st)"
    using repository_complete_wrong_state [OF found] .
  have a_ok: "status rc = PENDING \<Longrightarrow>
      \<exists>r st'. repository_approve_refund st rid agent t1 t2 = (Inr r, st') \<and>
        status r = APPROVED \<and> find_by_id st' rid = Some r"
    using repository_approve_stored [OF found _ elig, of agent t1 t2] by blast
  have r_ok: "status rc = PENDING \<Longrightarrow>
      \<exists>r st'. repository_reject_refund st rid agent reason t1 t2 = (Inr r, st') \<and>
        status r = REJECTED \<and> find_by_id st' rid = Some r"
    using repository_reject_stored [OF found _ elig, of agent reason t1 t2] by blast
  have c_ok: "status rc = APPROVED \<Longrightarrow>
      \<exists>r st'. repository_complete_refund st rid t2 = (Inr r, st') \<and>
        status r = COMPLETED \<and> find_by_id st' rid = Some r"
    using repository_complete_stored [OF found _ elig, of t2] by blast
  have a_iff: "(\<exists>r st'. repository_approve_refund st rid agent t1 t2 = (Inr r, st'))
      \<longleftrightarrow> status rc = PENDING"
    using a_bad a_ok by (cases "status rc = PENDING") auto
  have r_iff: "(\<exists>r st'. repository_reject_refund st rid agent reason t1 t2 = (Inr r, st'))
      \<longleftrightarrow> status rc = PENDING"
    using r_bad r_ok by (cases "status rc = PENDING") auto
  have c_iff: "(\<exists>r st'. repository_complete_refund st rid t2 = (Inr r, st'))
      \<longleftrightarrow> status rc = APPROVED"
    using c_bad c_ok by (cases "status rc = APPROVED") auto
  have final: "status rc = REJECTED \<or> status rc = COMPLETED \<Longrightarrow>
      (\<exists>e. fst (repository_approve_refund st rid agent t1 t2) = Inl e)
      \<and> (\<exists>e. fst (repository_reject_refund st rid agent reason t1 t2) = Inl e)
      \<and> (\<exists>e. fst (repository_complete_refund st rid t2) = Inl e)"
    using a_bad r_bad c_bad by auto
  show ?thesis
    using a_iff r_iff c_iff a_bad r_bad c_bad a_ok r_ok c_ok final
      method_succeeds_iff
    by blast
qed

theorem transitions_guarded_by_status_witness:
  "find_by_id [example_case COMPLETED] ''R1'' = Some (example_case COMPLETED)
   \<and> eligibility_status (example_case COMPLETED) \<noteq> None
   \<and> status (example_case COMPLETED) \<noteq> PENDING
   \<and> repository_reject_refund [example_case COMPLETED] ''R1'' ''agentA'' ''late''
        example_time example_time =
        (Inl (BusinessRuleException ''Only pending refunds can be rejected'' None),
         [example_case COMPLETED])
   \<and> \<not> (\<exists>r st'. repository_complete_refund [example_case COMPLETED] ''R1'' example_time
            = (Inr r, st'))
   \<and> find_by_id [example_case PENDING] ''R1'' = Some (example_case PENDING)
   \<and> eligibility_status (example_case PENDING) \<noteq> None
   \<and> (\<exists>r st'. repository_approve_refund [example_case PENDING] ''R1'' ''agentA''
          example_time example_time = (Inr r, st') \<and> status r = APPROVED \<and>
          find_by_id st' ''R1'' = Some r)"
proof -
  have found: "find_by_id [example_case COMPLETED] ''R1'' = Some (example_case COMPLETED)"
    by (simp add: find_by_id_def example_case_def)
  have elig: "eligibility_status (example_case COMPLETED) \<noteq> None"
    by (simp add: example_case_def)
  have st: "status (example_case COMPLETED) \<noteq> PENDING"
    "status (example_case COMPLETED) \<noteq> APPROVED"
    by (simp_all add: example_case_def)
  have found': "find_by_id [example_case PENDING] ''R1'' = Some (example_case PENDING)"
    by (simp add: find_by_id_def example_case_def)
  have elig': "eligibility_status (example_case PENDING) \<noteq> None"
    by (simp add: example_case_def)
  have st': "status (example_case PENDING) = PENDING"
    by (simp add: example_case_def)
  have done_case: "repository_reject_refund [example_case COMPLETED] ''R1'' ''agentA'' ''late''
        example_time example_time =
        (Inl (BusinessRuleException ''Only pending refunds can be rejected'' None),
         [example_case COMPLETED])
   \<and> \<not> (\<exists>r st'. repository_complete_refund [example_case COMPLETED] ''R1'' example_time
            = (Inr r, st'))"
    using transitions_guarded_by_status [OF found elig, of "''agentA''" example_time
        example_time "''late''"] st
    by simp
  have pending_case: "\<exists>r st'. repository_approve_refund [example_case PENDING] ''R1'' ''agentA''
          example_time example_time = (Inr r, st') \<and> status r = APPROVED \<and>
          find_by_id st' ''R1'' = Some r"
    using transitions_guarded_by_status [OF found' elig', of "''agentA''" example_time
        example_time "''late''"] st'
    by simp
  show ?thesis
    using found elig st(1) done_case found' elig' pending_case by simp
qed

lemma repository_approve_failure_keeps_store:
  "fst (repository_approve_refund st rid agent t1 t2) = Inl e \<Longrightarrow>
     snd (repository_approve_refund st rid agent t1 t2) = st"
  by (auto simp add: repository_approve_refund_def update_def
      split: option.splits if_splits prod.splits sum.splits)

lemma repository_reject_failure_keeps_store:
  "fst (repository_reject_refund st rid agent reason t1 t2) = Inl e \<Longrightarrow>
     snd (repository_reject_refund st rid agent reason t1 t2) = st"
  by (auto simp add: repository_reject_refund_def update_def
      split: option.splits if_splits prod.splits sum.splits)

lemma repository_complete_failure_keeps_store:
  "fst (repository_complete_refund st rid t) = Inl e \<Longrightarrow>
     snd (repository_complete_refund st rid t) = st"
  by (auto simp add: repository_complete_refund_def update_def
      split: option.splits if_splits prod.splits sum.splits)

text \<open>
  Claim C2. A transition attempted from a wrong state leaves the case exactly as it
  was: the method returns the object unchanged (so its history, status, processed\_at,
  agent\_id and rejection\_reason are the prior ones), and the repository returns the
  store unchanged. More generally, every failing call of the repository leaves the
  store unchanged.
\<close>

theorem failed_transition_changes_nothing:
  "(status rc \<noteq> PENDING \<longrightarrow>
      snd (approve_refund agent t1 t2 rc) = rc \<and>
      snd (reject_refund agent reason t1 t2 rc) = rc)
   \<and> (status rc \<noteq> APPROVED \<longrightarrow> snd (complete_refund t2 rc) = rc)
   \<and> (find_by_id st rid = Some rc \<and> status rc \<noteq> PENDING \<longrightarrow>
        snd (repository_approve_refund st rid agent t1 t2) = st \<and>
        snd (repository_reject_refund st rid agent reason t1 t2) = st)
   \<and> (find_by_id st rid = Some rc \<and> status rc \<noteq> APPROVED \<longrightarrow>
        snd (repository_complete_refund st rid t2) = st)
   \<and> (\<forall>e. fst (repository_approve_refund st rid agent t1 t2) = Inl e \<longrightarrow>
        snd (repository_approve_refund st rid agent t1 t2) = st)
   \<and> (\<forall>e. fst (repository_reject_refund st rid agent reason t1 t2) = Inl e \<longrightarrow>
        snd (repository_reject_refund st rid agent reason t1 t2) = st)
   \<and> (\<forall>e. fst (repository_complete_refund st rid t2) = Inl e \<longrightarrow>
        snd (repository_complete_refund st rid t2) = st)"
proof -
  have model_pending: "status rc \<noteq> PENDING \<Longrightarrow>
      snd (approve_refund agent t1 t2 rc) = rc \<and>
      snd (reject_refund agent reason t1 t2 rc) = rc"
    by (simp add: approve_refund_guard reject_refund_guard)
  have model_approved: "status rc \<noteq> APPROVED \<Longrightarrow> snd (complete_refund t2 rc) = rc"
    by (simp add: complete_refund_guard)
  have repo_pending: "find_by_id st rid = Some rc \<and> status rc \<noteq> PENDING \<Longrightarrow>
      snd (repository_approve_refund st rid agent t1 t2) = st \<and>
      snd (repository_reject_refund st rid agent reason t1 t2) = st"
    by (simp add: repository_approve_wrong_state repository_reject_wrong_state)
  have repo_approved: "find_by_id st rid = Some rc \<and> status rc \<noteq> APPROVED \<Longrightarrow>
      snd (repository_complete_refund st rid t2) = st"
    by (simp add: repository_complete_wrong_state)
  show ?thesis
    using model_pending model_approved repo_pending repo_approved
      repository_approve_failure_keeps_store [of st rid agent t1 t2]
      repository_reject_failure_keeps_store [of st rid agent reason t1 t2]
      repository_complete_failure_keeps_store [of st rid t2]
    by blast
qed

theorem failed_transition_changes_nothing_witness:
  "find_by_id [example_case APPROVED] ''R1'' = Some (example_case APPROVED)
   \<and> status (example_case APPROVED) \<noteq> PENDING
   \<and> fst (repository_approve_refund [example_case APPROVED] ''R1'' ''agentB''
            example_time example_time)
       = Inl (BusinessRuleException ''Only pending refunds can be approved'' None)
   \<and> snd (repository_approve_refund [example_case APPROVED] ''R1'' ''agentB''
            example_time example_time)
       = [example_case APPROVED]
   \<and> length (history (snd (approve_refund ''agentB'' example_time example_time
                              (example_case APPROVED)))) = 1"
proof -
  have found: "find_by_id [example_case APPROVED] ''R1'' = Some (example_case APPROVED)"
    by (simp add: find_by_id_def example_case_def)
  have st: "status (example_case APPROVED) \<noteq> PENDING"
    by (simp add: example_case_def)
  have fails: "fst (repository_approve_refund [example_case APPROVED] ''R1'' ''agentB''
            example_time example_time)
       = Inl (BusinessRuleException ''Only pending refunds can be approved'' None)"
    using found st by (simp add: repository_approve_refund_def status_value_Pending)
  have len: "length (history (example_case APPROVED)) = 1"
    by (simp add: example_case_def)
  show ?thesis
    using failed_transition_changes_nothing [of "example_case APPROVED" "''agentB''"
        example_time example_time "''late''" "[example_case APPROVED]" "''R1''"]
      found st fails len
    by simp
qed

section \<open>The eligibility loops\<close>

lemma str_int_1: "str_int 1 = ''1''"
  by (simp add: str_int_def str_nat.simps)

lemma eligibility_loop_eligible_iff:
  "eligibility_loop f today dd ps el inel = Inr (el', inel') \<Longrightarrow>
   e \<in> set el' \<longleftrightarrow>
     e \<in> set el \<or>
     (\<exists>p\<in>set ps. \<exists>s d. dd (rp_product_id p) = Some s \<and> s \<noteq> [] \<and> f s = Some d \<and>
        today - d \<le> 14 \<and>
        e = \<lparr>e_product_id = rp_product_id p, e_eligible = True,
              e_reason = ''Within 14-day refund window'', e_delivery_date = Some s,
              e_days_since_delivery = Some (today - d), e_quantity = None, e_price = None\<rparr>)"
proof (induction ps arbitrary: el inel)
  case Nil
  then show ?case by simp
next
  case (Cons p ps)
  show ?case
  proof (cases "dd (rp_product_id p)")
    case None
    with Cons.prems Cons.IH show ?thesis by (simp add: Let_def)
  next
    case (Some s)
    show ?thesis
    proof (cases "s = []")
      case True
      with Some Cons.prems Cons.IH show ?thesis by (simp add: Let_def)
    next
      case False
      show ?thesis
      proof (cases "f s")
        case None
        with Some False Cons.prems show ?thesis by (simp add: Let_def)
      next
        case d: (Some d)
        show ?thesis
        proof (cases "today - d \<le> 14")
          case True
          with Some False d Cons.prems Cons.IH show ?thesis
            by (simp add: Let_def) blast
        next
          case far: False
          with Some False d Cons.prems Cons.IH show ?thesis
            by (simp add: Let_def)
        qed
      qed
    qed
  qed
qed

lemma eligibility_loop_ineligible_iff:
  "eligibility_loop f today dd ps el inel = Inr (el', inel') \<Longrightarrow>
   e \<in> set inel' \<longleftrightarrow>
     e \<in> set inel \<or>
     (\<exists>p\<in>set ps.
        ((dd (rp_product_id p) = None \<or> dd (rp_product_id p) = Some []) \<and>
          e = \<lparr>e_product_id = rp_product_id p, e_eligible = False,
                e_reason = ''No delivery date available'', e_delivery_date = None,
                e_days_since_delivery = None, e_quantity = None, e_price = None\<rparr>)
        \<or> (\<exists>s d. dd (rp_product_id p) = Some s \<and> s \<noteq> [] \<and> f s = Some d \<and>
              \<not> today - d \<le> 14 \<and>
              e = \<lparr>e_product_id = rp_product_id p, e_eligible = False,
                    e_reason = ''Exceeds 14-day refund window by '' @
                      str_int (today - d - 14) @ '' days'',
                    e_delivery_date = Some s,
                    e_days_since_delivery = Some (today - d),
                    e_quantity = None, e_price = None\<rparr>))"
proof (induction ps arbitrary: el inel)
  case Nil
  then show ?case by simp
next
  case (Cons p ps)
  show ?case
  proof (cases "dd (rp_product_id p)")
    case None
    with Cons.prems Cons.IH show ?thesis by (simp add: Let_def) blast
  next
    case (Some s)
    show ?thesis
    proof (cases "s = []")
      case True
      with Some Cons.prems Cons.IH show ?thesis by (simp add: Let_def) blast
    next
      case False
      show ?thesis
      proof (cases "f s")
        case None
        with Some False Cons.prems show ?thesis by (simp add: Let_def)
      next
        case d: (Some d)
        show ?thesis
        proof (cases "today - d \<le> 14")
          case True
          with Some False d Cons.prems Cons.IH show ?thesis
            by (simp add: Let_def)
        next
          case far: False
          with Some False d Cons.prems Cons.IH show ?thesis
            by (simp add: Let_def) blast
        qed
      qed
    qed
  qed
qed

lemma eligibility_loop_length:
  "eligibility_loop f today dd ps el inel = Inr (el', inel') \<Longrightarrow>
   length el' + length inel' = length el + length inel + length ps"
proof (induction ps arbitrary: el inel)
  case Nil
  then show ?case by simp
next
  case (Cons p ps)
  from Cons.prems Cons.IH show ?case
    by (auto simp add: Let_def split: option.splits if_splits)
qed


lemma validate_loop_eligible_iff:
  "validate_loop f today dd scp pids el inel = (el', inel') \<Longrightarrow>
   e \<in> set el' \<longleftrightarrow>
     e \<in> set el \<or>
     (\<exists>pid\<in>set pids. \<exists>product s d q. scp pid = Some product \<and>
        dd pid = Some s \<and> s \<noteq> [] \<and> f s = Some d \<and> today - d \<le> 14 \<and>
        sp_quantity product = Some q \<and>
        e = \<lparr>e_product_id = pid, e_eligible = True,
              e_reason = ''Within 14-day refund window'', e_delivery_date = Some s,
              e_days_since_delivery = Some (today - d),
              e_quantity = Some q,
              e_price = Some (case sp_price product of None \<Rightarrow> IntNum 0 | Some x \<Rightarrow> x)\<rparr>)"
proof (induction pids arbitrary: el inel)
  case Nil
  then show ?case by simp
next
  case (Cons pid pids)
  show ?case
  proof (cases "scp pid")
    case None
    with Cons.prems Cons.IH show ?thesis by simp
  next
    case product: (Some product)
    show ?thesis
    proof (cases "dd pid")
      case None
      with product Cons.prems Cons.IH show ?thesis by simp
    next
      case (Some s)
      show ?thesis
      proof (cases "s = []")
        case True
        with product Some Cons.prems Cons.IH show ?thesis by simp
      next
        case False
        show ?thesis
        proof (cases "f s")
          case None
          with product Some False Cons.prems Cons.IH show ?thesis by simp
        next
          case d: (Some d)
          show ?thesis
          proof (cases "sp_quantity product")
            case None
            show ?thesis
            proof (cases "today - d \<le> 14")
              case True
              with product Some False d None Cons.prems Cons.IH show ?thesis
                by (simp add: Let_def)
            next
              case far: False
              with product Some False d None Cons.prems Cons.IH show ?thesis
                by (simp add: Let_def)
            qed
          next
            case q: (Some q)
            show ?thesis
            proof (cases "today - d \<le> 14")
              case True
              with product Some False d q Cons.prems Cons.IH show ?thesis
                by (simp add: Let_def) blast
            next
              case far: False
              with product Some False d q Cons.prems Cons.IH show ?thesis
                by (simp add: Let_def)
            qed
          qed
        qed
      qed
    qed
  qed
qed

lemma validate_loop_ineligible_iff:
  "validate_loop f today dd scp pids el inel = (el', inel') \<Longrightarrow>
   e \<in> set inel' \<longleftrightarrow>
     e \<in> set inel \<or>
     (\<exists>pid\<in>set pids.
        (scp pid = None \<and>
          e = \<lparr>e_product_id = pid, e_eligible = False,
                e_reason = ''Product not found in support case'', e_delivery_date = None,
                e_days_since_delivery = None, e_quantity = None, e_price = None\<rparr>)
        \<or> (\<exists>product. scp pid = Some product \<and>
             (((dd pid = None \<or> dd pid = Some []) \<and>
                e = \<lparr>e_product_id = pid, e_eligible = False,
                      e_reason = ''No delivery date available for product'',
                      e_delivery_date = None, e_days_since_delivery = None,
                      e_quantity = None, e_price = None\<rparr>)
              \<or> (\<exists>s. dd pid = Some s \<and> s \<noteq> [] \<and>
                    (f s = None \<or> sp_quantity product = None) \<and>
                    e = \<lparr>e_product_id = pid, e_eligible = False,
                          e_reason = ''Invalid delivery date format'',
                          e_delivery_date = None, e_days_since_delivery = None,
                          e_quantity = None, e_price = None\<rparr>)
              \<or> (\<exists>s d q. dd pid = Some s \<and> s \<noteq> [] \<and> f s = Some d \<and>
                    \<not> today - d \<le> 14 \<and> sp_quantity product = Some q \<and>
                    e = \<lparr>e_product_id = pid, e_eligible = False,
                          e_reason = ''Exceeds 14-day refund window by '' @
                            str_int (today - d - 14) @ '' days'',
                          e_delivery_date = Some s,
                          e_days_since_delivery = Some (today - d),
                          e_quantity = Some q,
                          e_price = Some (case sp_price product of
                                            None \<Rightarrow> IntNum 0 | Some x \<Rightarrow> x)\<rparr>))))"
proof (induction pids arbitrary: el inel)
  case Nil
  then show ?case by simp
next
  case (Cons pid pids)
  show ?case
  proof (cases "scp pid")
    case None
    with Cons.prems Cons.IH show ?thesis by simp blast
  next
    case product: (Some product)
    show ?thesis
    proof (cases "dd pid")
      case None
      with product Cons.prems Cons.IH show ?thesis by simp blast
    next
      case (Some s)
      show ?thesis
      proof (cases "s = []")
        case True
        with product Some Cons.prems Cons.IH show ?thesis by simp blast
      next
        case False
        show ?thesis
        proof (cases "f s")
          case None
          with product Some False Cons.prems Cons.IH show ?thesis by simp blast
        next
          case d: (Some d)
          show ?thesis
          proof (cases "sp_quantity product")
            case None
            show ?thesis
            proof (cases "today - d \<le> 14")
              case True
              with product Some False d None Cons.prems Cons.IH show ?thesis
                by (simp add: Let_def) blast
            next
              case far: False
              with product Some False d None Cons.prems Cons.IH show ?thesis
                by (simp add: Let_def) blast
            qed
          next
            case q: (Some q)
            show ?thesis
            proof (cases "today - d \<le> 14")
              case True
              with product Some False d q Cons.prems Cons.IH show ?thesis
                by (simp add: Let_def)
            next
              case far: False
              with product Some False d q Cons.prems Cons.IH show ?thesis
                by (simp add: Let_def) blast
            qed
          qed
        qed
      qed
    qed
  qed
qed

lemma validate_loop_length:
  "validate_loop f today dd scp pids el inel = (el', inel') \<Longrightarrow>
   length el' + length inel' = length el + length inel + length pids"
proof (induction pids arbitrary: el inel)
  case Nil
  then show ?case by simp
next
  case (Cons p ps)
  from Cons.prems Cons.IH show ?case
    by (auto simp add: Let_def split: option.splits if_splits)
qed

lemma calculate_eligibility_buckets:
  assumes "fst (calculate_eligibility f today dd rc) = Inr rep"
  shows "eligibility_loop f today dd (products rc) [] [] =
           Inr (r_eligible_products rep, r_ineligible_products rep)"
  using assms
  by (auto simp add: calculate_eligibility_def Let_def split: sum.splits prod.splits)

lemma calculate_eligibility_dated_line:
  assumes run: "fst (calculate_eligibility f today dd rc) = Inr rep"
    and p: "p \<in> set (products rc)"
    and s: "dd (rp_product_id p) = Some s" "s \<noteq> []" and d: "f s = Some d"
  shows "(listed (rp_product_id p) (r_eligible_products rep) \<longleftrightarrow> today - d \<le> 14)
     \<and> (listed (rp_product_id p) (r_ineligible_products rep) \<longleftrightarrow> \<not> today - d \<le> 14)
     \<and> (today - d \<le> 14 \<longrightarrow>
          \<lparr>e_product_id = rp_product_id p, e_eligible = True,
           e_reason = ''Within 14-day refund window'', e_delivery_date = Some s,
           e_days_since_delivery = Some (today - d), e_quantity = None, e_price = None\<rparr>
          \<in> set (r_eligible_products rep))
     \<and> (\<not> today - d \<le> 14 \<longrightarrow>
          \<lparr>e_product_id = rp_product_id p, e_eligible = False,
           e_reason = ''Exceeds 14-day refund window by '' @ str_int (today - d - 14) @ '' days'',
           e_delivery_date = Some s, e_days_since_delivery = Some (today - d),
           e_quantity = None, e_price = None\<rparr>
          \<in> set (r_ineligible_products rep))"
proof -
  note loop = calculate_eligibility_buckets [OF run]
  note el = eligibility_loop_eligible_iff [OF loop]
  note inel = eligibility_loop_ineligible_iff [OF loop]
  have 3: "today - d \<le> 14 \<Longrightarrow>
          \<lparr>e_product_id = rp_product_id p, e_eligible = True,
           e_reason = ''Within 14-day refund window'', e_delivery_date = Some s,
           e_days_since_delivery = Some (today - d), e_quantity = None, e_price = None\<rparr>
          \<in> set (r_eligible_products rep)"
    unfolding el using p s d by (intro disjI2 bexI [of _ p]) simp_all
  have 4: "\<not> today - d \<le> 14 \<Longrightarrow>
          \<lparr>e_product_id = rp_product_id p, e_eligible = False,
           e_reason = ''Exceeds 14-day refund window by '' @ str_int (today - d - 14) @ '' days'',
           e_delivery_date = Some s, e_days_since_delivery = Some (today - d),
           e_quantity = None, e_price = None\<rparr>
          \<in> set (r_ineligible_products rep)"
    unfolding inel using p s d by (intro disjI2 bexI [of _ p]) simp_all
  have 1: "listed (rp_product_id p) (r_eligible_products rep) \<Longrightarrow> today - d \<le> 14"
    unfolding listed_def Bex_def el using s d by auto
  have 2: "listed (rp_product_id p) (r_ineligible_products rep) \<Longrightarrow> \<not> today - d \<le> 14"
    unfolding listed_def Bex_def inel using s d by auto
  have 5: "today - d \<le> 14 \<Longrightarrow> listed (rp_product_id p) (r_eligible_products rep)"
    unfolding listed_def using 3 by force
  have 6: "\<not> today - d \<le> 14 \<Longrightarrow> listed (rp_product_id p) (r_ineligible_products rep)"
    unfolding listed_def using 4 by force
  show ?thesis using 1 2 3 4 5 6 by blast
qed


lemma calculate_eligibility_undated_line:
  assumes run: "fst (calculate_eligibility f today dd rc) = Inr rep"
    and p: "p \<in> set (products rc)"
    and s: "dd (rp_product_id p) = None"
  shows "\<lparr>e_product_id = rp_product_id p, e_eligible = False,
           e_reason = ''No delivery date available'', e_delivery_date = None,
           e_days_since_delivery = None, e_quantity = None, e_price = None\<rparr>
          \<in> set (r_ineligible_products rep)
     \<and> \<not> listed (rp_product_id p) (r_eligible_products rep)"
proof -
  note loop = calculate_eligibility_buckets [OF run]
  note el = eligibility_loop_eligible_iff [OF loop]
  note inel = eligibility_loop_ineligible_iff [OF loop]
  have 1: "\<lparr>e_product_id = rp_product_id p, e_eligible = False,
           e_reason = ''No delivery date available'', e_delivery_date = None,
           e_days_since_delivery = None, e_quantity = None, e_price = None\<rparr>
          \<in> set (r_ineligible_products rep)"
    unfolding inel using p s by (rule_tac disjI2, rule_tac bexI [of _ p]) simp_all
  have 2: "\<not> listed (rp_product_id p) (r_eligible_products rep)"
    unfolding listed_def Bex_def el using s by auto
  show ?thesis using 1 2 by blast
qed

lemma validate_loop_dated_line:
  assumes loop: "validate_loop f today dd scp pids [] [] = (eligible, ineligible)"
    and p: "pid \<in> set pids" and product: "scp pid = Some product" "sp_quantity product = Some q"
    and s: "dd pid = Some s" "s \<noteq> []" and d: "f s = Some d"
  shows "(listed pid eligible \<longleftrightarrow> today - d \<le> 14)
     \<and> (listed pid ineligible \<longleftrightarrow> \<not> today - d \<le> 14)
     \<and> (today - d \<le> 14 \<longrightarrow>
          \<lparr>e_product_id = pid, e_eligible = True,
           e_reason = ''Within 14-day refund window'', e_delivery_date = Some s,
           e_days_since_delivery = Some (today - d),
           e_quantity = Some q,
           e_price = Some (case sp_price product of None \<Rightarrow> IntNum 0 | Some x \<Rightarrow> x)\<rparr>
          \<in> set eligible)
     \<and> (\<not> today - d \<le> 14 \<longrightarrow>
          \<lparr>e_product_id = pid, e_eligible = False,
           e_reason = ''Exceeds 14-day refund window by '' @ str_int (today - d - 14) @ '' days'',
           e_delivery_date = Some s, e_days_since_delivery = Some (today - d),
           e_quantity = Some q,
           e_price = Some (case sp_price product of None \<Rightarrow> IntNum 0 | Some x \<Rightarrow> x)\<rparr>
          \<in> set ineligible)"
proof -
  note el = validate_loop_eligible_iff [OF loop]
  note inel = validate_loop_ineligible_iff [OF loop]
  have 3: "today - d \<le> 14 \<Longrightarrow>
          \<lparr>e_product_id = pid, e_eligible = True,
           e_reason = ''Within 14-day refund window'', e_delivery_date = Some s,
           e_days_since_delivery = Some (today - d),
           e_quantity = Some q,
           e_price = Some (case sp_price product of None \<Rightarrow> IntNum 0 | Some x \<Rightarrow> x)\<rparr>
          \<in> set eligible"
    unfolding el using p product s d by (intro disjI2 bexI [of _ pid]) simp_all
  have 4: "\<not> today - d \<le> 14 \<Longrightarrow>
          \<lparr>e_product_id = pid, e_eligible = False,
           e_reason = ''Exceeds 14-day refund window by '' @ str_int (today - d - 14) @ '' days'',
           e_delivery_date = Some s, e_days_since_delivery = Some (today - d),
           e_quantity = Some q,
           e_price = Some (case sp_price product of None \<Rightarrow> IntNum 0 | Some x \<Rightarrow> x)\<rparr>
          \<in> set ineligible"
    unfolding inel using p product s d by (intro disjI2 bexI [of _ pid]) simp_all
  have 1: "listed pid eligible \<Longrightarrow> today - d \<le> 14"
    unfolding listed_def Bex_def el using s d by auto
  have 2: "listed pid ineligible \<Longrightarrow> \<not> today - d \<le> 14"
    unfolding listed_def Bex_def inel using product s d by auto
  have 5: "today - d \<le> 14 \<Longrightarrow> listed pid eligible"
    unfolding listed_def using 3 by force
  have 6: "\<not> today - d \<le> 14 \<Longrightarrow> listed pid ineligible"
    unfolding listed_def using 4 by force
  show ?thesis using 1 2 3 4 5 6 by blast
qed

lemma validate_loop_undated_line:
  assumes loop: "validate_loop f today dd scp pids [] [] = (eligible, ineligible)"
    and p: "pid \<in> set pids" and product: "scp pid = Some product"
    and s: "dd pid = None"
  shows "\<lparr>e_product_id = pid, e_eligible = False,
           e_reason = ''No delivery date available for product'', e_delivery_date = None,
           e_days_since_delivery = None, e_quantity = None, e_price = None\<rparr>
          \<in> set ineligible
     \<and> \<not> listed pid eligible"
proof -
  note el = validate_loop_eligible_iff [OF loop]
  note inel = validate_loop_ineligible_iff [OF loop]
  have 1: "\<lparr>e_product_id = pid, e_eligible = False,
           e_reason = ''No delivery date available for product'', e_delivery_date = None,
           e_days_since_delivery = None, e_quantity = None, e_price = None\<rparr>
          \<in> set ineligible"
    unfolding inel using p product s by (rule_tac disjI2, rule_tac bexI [of _ pid]) simp_all
  have 2: "\<not> listed pid eligible"
    unfolding listed_def Bex_def el using s by auto
  show ?thesis using 1 2 by blast
qed

section \<open>Aggregate verdict and failures of the eligibility computations\<close>

lemma calculate_eligibility_verdict:
  assumes run: "fst (calculate_eligibility f today dd rc) = Inr rep"
    and nonempty: "products rc \<noteq> []"
  shows "length (r_eligible_products rep) + length (r_ineligible_products rep)
           = length (products rc)
     \<and> (length (r_eligible_products rep) = length (products rc) \<longrightarrow>
          r_eligibility_status rep = ''Eligible'')
     \<and> (length (r_eligible_products rep) = 0 \<longrightarrow>
          r_eligibility_status rep = ''Ineligible'')
     \<and> (0 < length (r_eligible_products rep) \<and>
        length (r_eligible_products rep) < length (products rc) \<longrightarrow>
          r_eligibility_status rep = ''Partially Eligible'')"
proof -
  note loop = calculate_eligibility_buckets [OF run]
  have len: "length (r_eligible_products rep) + length (r_ineligible_products rep)
      = length (products rc)"
    using eligibility_loop_length [OF loop] by simp
  have st: "r_eligibility_status rep =
      eligibility_value (overall_status (r_eligible_products rep) (r_ineligible_products rep))"
    using run
    by (auto simp add: calculate_eligibility_def Let_def split: sum.splits prod.splits)
  from nonempty have pos: "0 < length (products rc)" by simp
  show ?thesis using len st pos by (auto simp add: overall_status_def)
qed

lemma calculate_eligibility_malformed:
  assumes "p \<in> set (products rc)" and "dd (rp_product_id p) = Some s" and "s \<noteq> []"
    and "f s = None"
  shows "\<exists>s'. calculate_eligibility f today dd rc = (Inl (InvalidIsoformat s'), rc)"
proof -
  have "\<exists>s'. eligibility_loop f today dd ps el inel = Inl (InvalidIsoformat s')"
    if "p \<in> set ps" for ps el inel
    using that
  proof (induction ps arbitrary: el inel)
    case Nil
    then show ?case by simp
  next
    case (Cons q qs)
    show ?case
    proof (cases "q = p")
      case True
      with assms show ?thesis by simp
    next
      case False
      with Cons.prems have "p \<in> set qs" by simp
      from Cons.IH [OF this] show ?thesis
        by (simp add: Let_def split: option.splits)
    qed
  qed
  from this [OF assms(1), of "[]" "[]"] show ?thesis
    by (auto simp add: calculate_eligibility_def)
qed

lemma py_mul_error: "py_mul fl x n = Inl e \<Longrightarrow> \<exists>m. e = OverflowError m"
  by (cases x) (auto simp add: to_float_def split: option.splits)

lemma py_add_error: "py_add fl x y = Inl e \<Longrightarrow> \<exists>m. e = OverflowError m"
  by (cases x; cases y) (auto simp add: to_float_def split: option.splits)

lemma sum_amounts_priced:
  "\<forall>e\<in>set es. e_price e \<noteq> None \<and> e_quantity e \<noteq> None \<Longrightarrow>
     sum_amounts fl es acc = Inl err \<Longrightarrow> \<exists>m. err = OverflowError m"
proof (induction es arbitrary: acc)
  case Nil
  then show ?case by simp
next
  case (Cons e es)
  from Cons.prems(1) obtain x q where e: "e_price e = Some x" "e_quantity e = Some q" by auto
  show ?case
  proof (cases "py_mul fl x q")
    case (Inl e1)
    with e Cons.prems(2) py_mul_error [OF Inl] show ?thesis by simp
  next
    case (Inr a)
    show ?thesis
    proof (cases "py_add fl acc a")
      case (Inl e2)
      with e Inr Cons.prems(2) py_add_error [OF Inl] show ?thesis by simp
    next
      case acc': (Inr acc')
      with e Inr Cons.prems have "sum_amounts fl es acc' = Inl err" by simp
      moreover from Cons.prems(1)
      have "\<forall>e\<in>set es. e_price e \<noteq> None \<and> e_quantity e \<noteq> None" by simp
      ultimately show ?thesis using Cons.IH by blast
    qed
  qed
qed

lemma sum_amounts_unpriced:
  "\<forall>e\<in>set es. e_price e = None \<or> e_quantity e \<noteq> None \<Longrightarrow> \<exists>e\<in>set es. e_price e = None \<Longrightarrow>
     \<exists>err. sum_amounts fl es acc = Inl err \<and>
       (err = KeyError ''price'' \<or> (\<exists>m. err = OverflowError m))"
proof (induction es arbitrary: acc)
  case Nil
  then show ?case by simp
next
  case (Cons e es)
  show ?case
  proof (cases "e_price e")
    case None
    then show ?thesis by simp
  next
    case (Some x)
    with Cons.prems obtain q where q: "e_quantity e = Some q" by auto
    from Some Cons.prems have rest: "\<exists>e\<in>set es. e_price e = None" by auto
    from Cons.prems have shape: "\<forall>e\<in>set es. e_price e = None \<or> e_quantity e \<noteq> None" by simp
    show ?thesis
    proof (cases "py_mul fl x q")
      case (Inl e1)
      with Some q py_mul_error [OF Inl] show ?thesis by simp
    next
      case (Inr a)
      show ?thesis
      proof (cases "py_add fl acc a")
        case (Inl e2)
        with Some q Inr py_add_error [OF Inl] show ?thesis by simp
      next
        case acc': (Inr acc')
        with Some q Inr Cons.IH [OF shape rest, of acc'] show ?thesis by simp
      qed
    qed
  qed
qed

lemma validate_refund_eligibility_unpriced:
  assumes owner: "supports sc = Some support_case" "sc_customer_id support_case = cust"
    and pid: "pid \<in> set product_ids"
    and bad: "support_case_products support_case pid = None
              \<or> dd pid = None \<or> dd pid = Some [] \<or> (\<exists>s. dd pid = Some s \<and> f s = None)
              \<or> (\<exists>product. support_case_products support_case pid = Some product \<and>
                    sp_quantity product = None)"
  shows "\<exists>err. validate_refund_eligibility f fl today supports sc cust product_ids dd = Inl err
           \<and> (err = KeyError ''price'' \<or> (\<exists>m. err = OverflowError m))"
proof -
  obtain el inel where loop:
    "validate_loop f today dd (support_case_products support_case) product_ids [] []
       = (el, inel)"
    by (cases "validate_loop f today dd (support_case_products support_case) product_ids [] []")
  note el = validate_loop_eligible_iff [OF loop]
  note inel = validate_loop_ineligible_iff [OF loop]
  have priced: "\<forall>e\<in>set el. e_price e \<noteq> None \<and> e_quantity e \<noteq> None"
    by (auto simp add: el)
  have shape: "\<forall>e\<in>set inel. e_price e = None \<or> e_quantity e \<noteq> None"
    by (auto simp add: inel)
  have "\<exists>e. e \<in> set inel \<and> e_price e = None"
  proof (cases "support_case_products support_case pid")
    case None
    have "\<lparr>e_product_id = pid, e_eligible = False,
           e_reason = ''Product not found in support case'', e_delivery_date = None,
           e_days_since_delivery = None, e_quantity = None, e_price = None\<rparr> \<in> set inel"
      unfolding inel using pid None by (rule_tac disjI2, rule_tac bexI [of _ pid]) simp_all
    then show ?thesis by force
  next
    case (Some product)
    with bad consider "dd pid = None \<or> dd pid = Some []"
      | s where "dd pid = Some s" "s \<noteq> []" "f s = None \<or> sp_quantity product = None"
      by (cases "dd pid") auto
    then show ?thesis
    proof cases
      case 1
      have "\<lparr>e_product_id = pid, e_eligible = False,
             e_reason = ''No delivery date available for product'', e_delivery_date = None,
             e_days_since_delivery = None, e_quantity = None, e_price = None\<rparr> \<in> set inel"
        unfolding inel using pid Some 1
        by (rule_tac disjI2, rule_tac bexI [of _ pid]) simp_all
      then show ?thesis by force
    next
      case 2
      have "\<lparr>e_product_id = pid, e_eligible = False,
             e_reason = ''Invalid delivery date format'', e_delivery_date = None,
             e_days_since_delivery = None, e_quantity = None, e_price = None\<rparr> \<in> set inel"
        unfolding inel using pid Some 2
        by (rule_tac disjI2, rule_tac bexI [of _ pid]) simp_all
      then show ?thesis by force
    qed
  qed
  then have unpriced: "\<exists>e\<in>set inel. e_price e = None" by blast
  show ?thesis
  proof (cases "sum_amounts fl el (IntNum 0)")
    case (Inl err)
    from sum_amounts_priced [OF priced Inl] owner loop Inl show ?thesis
      by (auto simp add: validate_refund_eligibility_def Let_def)
  next
    case (Inr t)
    from sum_amounts_unpriced [OF shape unpriced, of fl "IntNum 0"] owner loop Inr
    show ?thesis
      by (auto simp add: validate_refund_eligibility_def Let_def)
  qed
qed

lemma validate_refund_eligibility_buckets:
  assumes run: "validate_refund_eligibility f fl today supports sc cust product_ids dd = Inr rep"
  shows "\<exists>support_case. supports sc = Some support_case \<and> sc_customer_id support_case = cust \<and>
           validate_loop f today dd (support_case_products support_case) product_ids [] []
             = (v_eligible_products rep, v_ineligible_products rep)
           \<and> v_eligibility_status rep =
               (if length (v_ineligible_products rep) = 0 then ''Eligible''
                else if length (v_eligible_products rep) > 0 then ''Partially Eligible''
                else ''Ineligible'')"
proof -
  from run obtain support_case where sc: "supports sc = Some support_case"
    "sc_customer_id support_case = cust"
    by (auto simp add: validate_refund_eligibility_def split: option.splits if_splits)
  obtain el inel where loop:
    "validate_loop f today dd (support_case_products support_case) product_ids [] []
       = (el, inel)"
    by (cases "validate_loop f today dd (support_case_products support_case) product_ids [] []")
  from run sc loop have rep:
    "v_eligible_products rep = el" "v_ineligible_products rep = inel"
    "v_eligibility_status rep =
       (if length inel = 0 then ''Eligible''
        else if length el > 0 then ''Partially Eligible'' else ''Ineligible'')"
    by (auto simp add: validate_refund_eligibility_def Let_def split: sum.splits)
  with sc loop show ?thesis by simp
qed

lemma validate_refund_eligibility_verdict:
  assumes run: "validate_refund_eligibility f fl today supports sc cust product_ids dd = Inr rep"
    and nonempty: "product_ids \<noteq> []"
  shows "length (v_eligible_products rep) + length (v_ineligible_products rep)
           = length product_ids
     \<and> (length (v_eligible_products rep) = length product_ids \<longrightarrow>
          v_eligibility_status rep = ''Eligible'')
     \<and> (length (v_eligible_products rep) = 0 \<longrightarrow>
          v_eligibility_status rep = ''Ineligible'')
     \<and> (0 < length (v_eligible_products rep) \<and>
        length (v_eligible_products rep) < length product_ids \<longrightarrow>
          v_eligibility_status rep = ''Partially Eligible'')"
proof -
  from validate_refund_eligibility_buckets [OF run] obtain support_case where
    loop: "validate_loop f today dd (support_case_products support_case) product_ids [] []
             = (v_eligible_products rep, v_ineligible_products rep)"
    and st: "v_eligibility_status rep =
               (if length (v_ineligible_products rep) = 0 then ''Eligible''
                else if length (v_eligible_products rep) > 0 then ''Partially Eligible''
                else ''Ineligible'')"
    by blast
  have len: "length (v_eligible_products rep) + length (v_ineligible_products rep)
      = length product_ids"
    using validate_loop_length [OF loop] by simp
  from nonempty have pos: "0 < length product_ids" by simp
  show ?thesis using len pos by (auto simp add: st)
qed

lemma validate_refund_eligibility_dated_line:
  assumes run: "validate_refund_eligibility f fl today supports sc cust product_ids dd = Inr rep"
    and pid: "pid \<in> set product_ids"
    and s: "dd pid = Some s" and d: "f s = Some d"
  shows "(listed pid (v_eligible_products rep) \<longleftrightarrow> today - d \<le> 14)
     \<and> (listed pid (v_ineligible_products rep) \<longleftrightarrow> \<not> today - d \<le> 14)"
proof -
  from validate_refund_eligibility_buckets [OF run] obtain support_case where
    sc: "supports sc = Some support_case" "sc_customer_id support_case = cust"
    and loop: "validate_loop f today dd (support_case_products support_case) product_ids [] []
             = (v_eligible_products rep, v_ineligible_products rep)"
    by blast
  have good: "\<not> (support_case_products support_case pid = None
              \<or> dd pid = None \<or> dd pid = Some [] \<or> (\<exists>s. dd pid = Some s \<and> f s = None)
              \<or> (\<exists>product. support_case_products support_case pid = Some product \<and>
                    sp_quantity product = None))"
  proof
    assume bad: "support_case_products support_case pid = None
              \<or> dd pid = None \<or> dd pid = Some [] \<or> (\<exists>s. dd pid = Some s \<and> f s = None)
              \<or> (\<exists>product. support_case_products support_case pid = Some product \<and>
                    sp_quantity product = None)"
    from validate_refund_eligibility_unpriced [where supports = supports and dd = dd and f = f
        and fl = fl and today = today, OF sc pid bad] run
    show False by auto
  qed
  then obtain product q where product: "support_case_products support_case pid = Some product"
    "sp_quantity product = Some q"
    by auto
  from good s have nonempty: "s \<noteq> []" by auto
  from validate_loop_dated_line [OF loop pid product s nonempty d] show ?thesis by blast
qed

lemma example_products:
  "support_case_products (example_support_case s) ''P1'' =
     Some \<lparr>sp_product_id = ''P1'', sp_quantity = Some 2, sp_price = Some (IntNum 10)\<rparr>"
  "sc_customer_id (example_support_case s) = ''C1''"
  by (simp_all add: support_case_products_def example_support_case_def)

text \<open>
  Claim C3, at an input where it fails. With the delivery date "15/03/2024",
  which \<^verbatim>\<open>fromisoformat\<close> refuses, the creation-time calculation and the factory
  raise the library's \<^verbatim>\<open>ValueError\<close>, and the standalone check, after putting the
  line in the ineligible bucket with reason "Invalid delivery date format", raises
  \<^verbatim>\<open>KeyError\<close> when it sums the bucket.
\<close>

theorem malformed_date_raises:
  "fromiso_sample ''15/03/2024'' = None
   \<and> calculate_eligibility fromiso_sample 738960 [''P1'' \<mapsto> ''15/03/2024'']
        (example_case PENDING) =
       (Inl (InvalidIsoformat ''15/03/2024''), example_case PENDING)
   \<and> create_from_support_case fromiso_sample float_sample 738960 example_time
        ''SC1'' ''C1'' ''O1'' [example_line] [''P1'' \<mapsto> ''15/03/2024''] =
       Inl (InvalidIsoformat ''15/03/2024'')
   \<and> snd (validate_loop fromiso_sample 738960 [''P1'' \<mapsto> ''15/03/2024'']
          (support_case_products (example_support_case ''Open'')) [''P1''] [] []) =
       [\<lparr>e_product_id = ''P1'', e_eligible = False,
         e_reason = ''Invalid delivery date format'', e_delivery_date = None,
         e_days_since_delivery = None, e_quantity = None, e_price = None\<rparr>]
   \<and> validate_refund_eligibility fromiso_sample float_sample 738960
        [''SC1'' \<mapsto> example_support_case ''Open''] ''SC1'' ''C1'' [''P1'']
        [''P1'' \<mapsto> ''15/03/2024''] =
       Inl (KeyError ''price'')"
proof -
  have 1: "fromiso_sample ''15/03/2024'' = None"
    by (simp add: fromiso_sample_def)
  have 2: "calculate_eligibility fromiso_sample 738960 [''P1'' \<mapsto> ''15/03/2024'']
        (example_case PENDING) =
       (Inl (InvalidIsoformat ''15/03/2024''), example_case PENDING)"
    by (simp add: calculate_eligibility_def example_case_def 1)
  have 3: "create_from_support_case fromiso_sample float_sample 738960 example_time
        ''SC1'' ''C1'' ''O1'' [example_line] [''P1'' \<mapsto> ''15/03/2024''] =
       Inl (InvalidIsoformat ''15/03/2024'')"
    by (simp add: create_from_support_case_def calculate_eligibility_def example_line_def
        float_sample_examples Let_def 1)
  have 4: "validate_loop fromiso_sample 738960 [''P1'' \<mapsto> ''15/03/2024'']
          (support_case_products (example_support_case ''Open'')) [''P1''] [] [] =
       ([], [\<lparr>e_product_id = ''P1'', e_eligible = False,
         e_reason = ''Invalid delivery date format'', e_delivery_date = None,
         e_days_since_delivery = None, e_quantity = None, e_price = None\<rparr>])"
    by (simp add: example_products 1)
  have 5: "validate_refund_eligibility fromiso_sample float_sample 738960
        [''SC1'' \<mapsto> example_support_case ''Open''] ''SC1'' ''C1'' [''P1'']
        [''P1'' \<mapsto> ''15/03/2024''] =
       Inl (KeyError ''price'')"
    by (simp add: validate_refund_eligibility_def 4 example_products del: validate_loop.simps)
  show ?thesis using 1 2 3 4 5 by simp
qed

text \<open>
  Claim C5, at an input where it fails. Product P1 is on the support case and the
  mapping has no delivery date for it. The standalone check builds the entry of the
  ineligible bucket, with the reason "No delivery date available for product", and then
  raises \<^verbatim>\<open>KeyError\<close> when it sums the bucket, so the line is not reported at all.
  The creation-time calculation reports the line of the same product as ineligible with
  the reason "No delivery date available".
\<close>

theorem undated_line_not_reported:
  "snd (validate_loop fromiso_sample 738960 [''P2'' \<mapsto> ''2024-03-10'']
          (support_case_products (example_support_case ''Open'')) [''P1''] [] []) =
       [\<lparr>e_product_id = ''P1'', e_eligible = False,
         e_reason = ''No delivery date available for product'', e_delivery_date = None,
         e_days_since_delivery = None, e_quantity = None, e_price = None\<rparr>]
   \<and> validate_refund_eligibility fromiso_sample float_sample 738960
        [''SC1'' \<mapsto> example_support_case ''Open''] ''SC1'' ''C1'' [''P1'']
        [''P2'' \<mapsto> ''2024-03-10''] =
       Inl (KeyError ''price'')
   \<and> fst (calculate_eligibility fromiso_sample 738960 [''P2'' \<mapsto> ''2024-03-10'']
             (example_case PENDING)) =
       Inr \<lparr>r_eligibility_status = ''Ineligible'', r_eligible_products = [],
            r_ineligible_products =
              [\<lparr>e_product_id = ''P1'', e_eligible = False,
                e_reason = ''No delivery date available'', e_delivery_date = None,
                e_days_since_delivery = None, e_quantity = None, e_price = None\<rparr>],
            r_eligible_count = 0, r_ineligible_count = 1\<rparr>"
proof -
  have 1: "validate_loop fromiso_sample 738960 [''P2'' \<mapsto> ''2024-03-10'']
          (support_case_products (example_support_case ''Open'')) [''P1''] [] [] =
       ([], [\<lparr>e_product_id = ''P1'', e_eligible = False,
         e_reason = ''No delivery date available for product'', e_delivery_date = None,
         e_days_since_delivery = None, e_quantity = None, e_price = None\<rparr>])"
    by (simp add: example_products)
  have 2: "validate_refund_eligibility fromiso_sample float_sample 738960
        [''SC1'' \<mapsto> example_support_case ''Open''] ''SC1'' ''C1'' [''P1'']
        [''P2'' \<mapsto> ''2024-03-10''] =
       Inl (KeyError ''price'')"
    by (simp add: validate_refund_eligibility_def 1 example_products del: validate_loop.simps)
  have 3: "fst (calculate_eligibility fromiso_sample 738960 [''P2'' \<mapsto> ''2024-03-10'']
             (example_case PENDING)) =
       Inr \<lparr>r_eligibility_status = ''Ineligible'', r_eligible_products = [],
            r_ineligible_products =
              [\<lparr>e_product_id = ''P1'', e_eligible = False,
                e_reason = ''No delivery date available'', e_delivery_date = None,
                e_days_since_delivery = None, e_quantity = None, e_price = None\<rparr>],
            r_eligible_count = 0, r_ineligible_count = 1\<rparr>"
    by (simp add: calculate_eligibility_def example_case_def overall_status_def)
  show ?thesis using 1 2 3 by simp
qed

text \<open>
  Claim C6, at an input where it fails. One requested line, none eligible (the product
  has no delivery date): the standalone check computes the verdict but raises
  \<^verbatim>\<open>KeyError\<close> on the entry of the ineligible bucket, which has no
  \<^verbatim>\<open>price\<close>, so no verdict is returned. The creation-time calculation on the same
  line returns "Ineligible".
\<close>

theorem no_verdict_without_delivery_date:
  "validate_loop fromiso_sample 738960 Map.empty
      (support_case_products (example_support_case ''Open'')) [''P1''] [] [] =
     ([], [\<lparr>e_product_id = ''P1'', e_eligible = False,
            e_reason = ''No delivery date available for product'', e_delivery_date = None,
            e_days_since_delivery = None, e_quantity = None, e_price = None\<rparr>])
   \<and> validate_refund_eligibility fromiso_sample float_sample 738960
        [''SC1'' \<mapsto> example_support_case ''Open''] ''SC1'' ''C1'' [''P1''] Map.empty =
       Inl (KeyError ''price'')
   \<and> r_eligibility_status
        (projr (fst (calculate_eligibility fromiso_sample 738960 Map.empty
                       (example_case PENDING)))) = ''Ineligible''"
proof -
  have 1: "validate_loop fromiso_sample 738960 Map.empty
      (support_case_products (example_support_case ''Open'')) [''P1''] [] [] =
     ([], [\<lparr>e_product_id = ''P1'', e_eligible = False,
            e_reason = ''No delivery date available for product'', e_delivery_date = None,
            e_days_since_delivery = None, e_quantity = None, e_price = None\<rparr>])"
    by (simp add: example_products)
  have 2: "validate_refund_eligibility fromiso_sample float_sample 738960
        [''SC1'' \<mapsto> example_support_case ''Open''] ''SC1'' ''C1'' [''P1''] Map.empty =
       Inl (KeyError ''price'')"
    by (simp add: validate_refund_eligibility_def 1 example_products del: validate_loop.simps)
  have 3: "r_eligibility_status
        (projr (fst (calculate_eligibility fromiso_sample 738960 Map.empty
                       (example_case PENDING)))) = ''Ineligible''"
    by (simp add: calculate_eligibility_def example_case_def overall_status_def)
  show ?thesis using 1 2 3 by simp
qed

text \<open>
  Claim C10. For the owning customer of an existing support case, the standalone check
  of an empty list of product ids returns the report with both buckets empty, the
  verdict "Eligible", \<^verbatim>\<open>all_eligible\<close> true and both totals 0.
\<close>

theorem empty_check_is_eligible:
  assumes "supports sc = Some support_case" and "sc_customer_id support_case = cust"
  shows "validate_refund_eligibility fromiso fl today supports sc cust [] dd =
           Inr \<lparr>v_eligibility_status = ''Eligible'', v_eligible_products = [],
                v_ineligible_products = [], v_all_eligible = True,
                v_total_eligible_amount = IntNum 0, v_total_ineligible_amount = IntNum 0\<rparr>"
  using assms by (simp add: validate_refund_eligibility_def)

theorem empty_check_is_eligible_witness:
  "[''SC1'' \<mapsto> example_support_case ''Open''] ''SC1'' = Some (example_support_case ''Open'')
   \<and> sc_customer_id (example_support_case ''Open'') = ''C1''
   \<and> validate_refund_eligibility fromiso_sample float_sample 738960
        [''SC1'' \<mapsto> example_support_case ''Open''] ''SC1'' ''C1'' [] Map.empty =
           Inr \<lparr>v_eligibility_status = ''Eligible'', v_eligible_products = [],
                v_ineligible_products = [], v_all_eligible = True,
                v_total_eligible_amount = IntNum 0, v_total_ineligible_amount = IntNum 0\<rparr>"
proof -
  have found: "[''SC1'' \<mapsto> example_support_case ''Open''] ''SC1''
      = Some (example_support_case ''Open'')"
    by simp
  have owner: "sc_customer_id (example_support_case ''Open'') = ''C1''"
    by (simp add: example_support_case_def)
  show ?thesis
    using empty_check_is_eligible [where supports = "[''SC1'' \<mapsto> example_support_case ''Open'']"
        and sc = "''SC1''" and support_case = "example_support_case ''Open''"
        and cust = "''C1''" and fromiso = fromiso_sample and fl = float_sample
        and today = 738960 and dd = Map.empty]
      found owner
    by simp
qed

section \<open>Read access\<close>

text \<open>
  Claim C7 (amended). Fetching a refund case fails with the not-found error when the
  refund case does not exist and with the access-denied business-rule violation when it
  belongs to another customer. Listing by support case fails with the access-denied
  business-rule violation both when the support case does not exist and when it belongs
  to another customer; the owner gets every refund case of the support case.
\<close>

theorem read_access_failures:
  "(find_by_id st rid = None \<longrightarrow>
      get_refund_case st rid cust = Inl (NotFoundException ''RefundCase'' (''ID '' @ rid)))
   \<and> (\<forall>rc. find_by_id st rid = Some rc \<and> customer_id rc \<noteq> cust \<longrightarrow>
        get_refund_case st rid cust =
          Inl (BusinessRuleException
                 ''Access denied: Customer does not own this refund case'' None))
   \<and> (\<forall>rc. find_by_id st rid = Some rc \<and> customer_id rc = cust \<longrightarrow>
        get_refund_case st rid cust = Inr rc)
   \<and> (supports sc = None \<or> (\<exists>s. supports sc = Some s \<and> sc_customer_id s \<noteq> cust) \<longrightarrow>
        get_refund_cases_by_support_case supports st sc cust =
          Inl (BusinessRuleException
                 ''Access denied: Customer does not own this support case'' None))
   \<and> (\<forall>s. supports sc = Some s \<and> sc_customer_id s = cust \<longrightarrow>
        get_refund_cases_by_support_case supports st sc cust =
          Inr (filter (\<lambda>r. support_case_id r = sc) st))"
  by (auto simp add: get_refund_case_def get_refund_cases_by_support_case_def
      find_by_support_case_def find_all_by_field_def)

theorem read_access_failures_witness:
  "find_by_id [example_case PENDING] ''R9'' = None
   \<and> get_refund_case [example_case PENDING] ''R9'' ''C2'' =
       Inl (NotFoundException ''RefundCase'' ''ID R9'')
   \<and> find_by_id [example_case PENDING] ''R1'' = Some (example_case PENDING)
   \<and> customer_id (example_case PENDING) \<noteq> ''C2''
   \<and> get_refund_case [example_case PENDING] ''R1'' ''C2'' =
       Inl (BusinessRuleException
              ''Access denied: Customer does not own this refund case'' None)
   \<and> get_refund_cases_by_support_case [''SC1'' \<mapsto> example_support_case ''Open'']
        [example_case PENDING] ''SC1'' ''C2'' =
       Inl (BusinessRuleException
              ''Access denied: Customer does not own this support case'' None)"
proof -
  have none: "find_by_id [example_case PENDING] ''R9'' = None"
    by (simp add: find_by_id_def example_case_def)
  have found: "find_by_id [example_case PENDING] ''R1'' = Some (example_case PENDING)"
    by (simp add: find_by_id_def example_case_def)
  have other: "customer_id (example_case PENDING) \<noteq> ''C2''"
    by (simp add: example_case_def)
  have sup: "[''SC1'' \<mapsto> example_support_case ''Open''] ''SC1''
      = Some (example_support_case ''Open'')"
    "sc_customer_id (example_support_case ''Open'') \<noteq> ''C2''"
    by (simp_all add: example_support_case_def)
  show ?thesis
    using read_access_failures [of "[example_case PENDING]" "''R9''" "''C2''"
        "[''SC1'' \<mapsto> example_support_case ''Open'']" "''SC1''"]
      read_access_failures [of "[example_case PENDING]" "''R1''" "''C2''"
        "[''SC1'' \<mapsto> example_support_case ''Open'']" "''SC1''"]
      none found other sup
    by simp
qed

theorem missing_support_case_counterexample:
  "get_refund_cases_by_support_case Map.empty [] ''SC9'' ''C1'' =
     Inl (BusinessRuleException
            ''Access denied: Customer does not own this support case'' None)"
  by (simp add: get_refund_cases_by_support_case_def)

section \<open>Creation: conflicts\<close>

lemma status_value_active:
  "status_value s \<in> set [''Pending'', ''Approved''] \<longleftrightarrow> s = PENDING \<or> s = APPROVED"
  by (cases s) simp_all

lemma set_conflicts_of:
  "set (conflicts_of pids r) =
     {\<lparr>c_refund_id = refund_id r, c_product_id = rp_product_id p, c_status = status r\<rparr> | p.
        (status r = PENDING \<or> status r = APPROVED) \<and> p \<in> set (products r) \<and>
        rp_product_id p \<in> set pids}"
  unfolding conflicts_of_def status_value_active by auto

lemma set_conflicting_refunds:
  "set (concat (map (conflicts_of pids) (find_by_support_case st sc))) =
     {\<lparr>c_refund_id = refund_id r, c_product_id = rp_product_id p, c_status = status r\<rparr> | r p.
        r \<in> set st \<and> support_case_id r = sc \<and> (status r = PENDING \<or> status r = APPROVED) \<and>
        p \<in> set (products r) \<and> rp_product_id p \<in> set pids}"
  by (auto simp add: set_conflicts_of find_by_support_case_def find_all_by_field_def)

lemma product_ids_of_set:
  "product_ids_of lines = Inr pids \<Longrightarrow>
     set pids = {pid. \<exists>l\<in>set lines. rl_product_id l = Some pid}"
proof (induction lines arbitrary: pids)
  case Nil
  then show ?case by simp
next
  case (Cons l ls)
  then show ?case by (auto split: option.splits sum.splits)
qed

lemma validate_lines_product_ids:
  "validate_lines lines = Inr () \<Longrightarrow> \<exists>pids. product_ids_of lines = Inr pids"
proof (induction lines)
  case Nil
  then show ?case by simp
next
  case (Cons l ls)
  then show ?case by (auto split: option.splits if_splits)
qed

lemma refund_products_loop_error:
  "refund_products_loop fl dd lines acc tot = Inl e \<Longrightarrow>
     (\<exists>k. e = KeyError k) \<or> (\<exists>m. e = OverflowError m)"
proof (induction lines arbitrary: acc tot)
  case Nil
  then show ?case by simp
next
  case (Cons l ls)
  show ?case
  proof (cases "rl_product_id l")
    case None
    with Cons.prems show ?thesis by auto
  next
    case pid: (Some pid)
    show ?thesis
    proof (cases "rl_quantity l")
      case None
      with pid Cons.prems show ?thesis by auto
    next
      case q: (Some q)
      let ?price = "case rl_price l of None \<Rightarrow> FloatNum (fl_zero fl) | Some x \<Rightarrow> x"
      show ?thesis
      proof (cases "py_mul fl ?price q")
        case (Inl e1)
        with pid q Cons.prems py_mul_error [OF Inl] show ?thesis by (simp add: Let_def)
      next
        case (Inr a)
        show ?thesis
        proof (cases "py_add fl tot a")
          case (Inl e2)
          with pid q Inr Cons.prems py_add_error [OF Inl] show ?thesis by (simp add: Let_def)
        next
          case tot': (Inr tot')
          with pid q Inr Cons.prems Cons.IH show ?thesis by (simp add: Let_def)
        qed
      qed
    qed
  qed
qed

lemma eligibility_loop_error:
  "eligibility_loop f today dd ps el inel = Inl e \<Longrightarrow> \<exists>s. e = InvalidIsoformat s"
  by (induction ps arbitrary: el inel) (auto simp add: Let_def split: option.splits if_splits)

lemma create_from_support_case_error:
  "create_from_support_case f fl today th sc cust ord lines dd = Inl e \<Longrightarrow>
     (\<exists>k. e = KeyError k) \<or> (\<exists>m. e = OverflowError m) \<or> (\<exists>s. e = InvalidIsoformat s)"
  by (auto simp add: create_from_support_case_def calculate_eligibility_def Let_def
      split: sum.splits prod.splits
      dest: refund_products_loop_error eligibility_loop_error)

lemma create_refund_case_error:
  "fst (create_refund_case f fl new_id tc today th st sc cust ord lines dd) = Inl e \<Longrightarrow>
     (\<exists>k. e = KeyError k) \<or> (\<exists>m. e = OverflowError m) \<or> (\<exists>s. e = InvalidIsoformat s)"
  by (auto simp add: create_refund_case_def create_def Let_def split: sum.splits
      dest: create_from_support_case_error)


lemma create_refund_request_checked:
  assumes valid: "validate_refund_request sc cust lines = Inr ()"
    and sup: "supports sc = Some support_case"
    and own: "sc_customer_id support_case = cust"
    and opn: "sc_status support_case = ''Open''"
    and pids: "product_ids_of lines = Inr pids"
  shows "create_refund_request f fl new_id tc today th supports st sc cust lines dd =
     (if concat (map (conflicts_of pids) (find_by_support_case st sc)) \<noteq> []
      then (Inl (BusinessRuleException ''Some products already have active refund requests''
                   (Some (concat (map (conflicts_of pids) (find_by_support_case st sc))))), st)
      else create_refund_case f fl new_id tc today th st sc cust (sc_order_id support_case)
             lines dd)"
  using assms
  by (simp add: create_refund_request_def check_existing_refunds_def Let_def)

text \<open>
  Claim C4 (amended). For a request that passes the earlier checks of creation (valid
  shape, existing support case, owned by the requester, status Open), creation is
  rejected with the business-rule violation that carries a conflict list if and only if
  some requested product id appears in a refund case of the same support case whose
  status is Pending or Approved. The attached list holds exactly the triples
  (refund id, product id, status) of such lines, nothing is stored, and refund cases in
  Rejected or Completed status never cause this rejection.
\<close>

theorem conflict_rejects_creation:
  assumes valid: "validate_refund_request sc cust lines = Inr ()"
    and sup: "supports sc = Some support_case"
    and own: "sc_customer_id support_case = cust"
    and opn: "sc_status support_case = ''Open''"
  shows
    "((\<exists>cs. fst (create_refund_request fromiso fl new_id tc today th supports st sc cust lines dd)
             = Inl (BusinessRuleException
                      ''Some products already have active refund requests'' (Some cs)))
      \<longleftrightarrow> (\<exists>r\<in>set st. support_case_id r = sc \<and> (status r = PENDING \<or> status r = APPROVED) \<and>
             (\<exists>p\<in>set (products r). \<exists>l\<in>set lines. rl_product_id l = Some (rp_product_id p))))
   \<and> (\<forall>msg cs. fst (create_refund_request fromiso fl new_id tc today th supports st sc cust lines dd)
             = Inl (BusinessRuleException msg (Some cs)) \<longrightarrow>
         set cs =
           {\<lparr>c_refund_id = refund_id r, c_product_id = rp_product_id p, c_status = status r\<rparr>
              | r p. r \<in> set st \<and> support_case_id r = sc \<and>
                  (status r = PENDING \<or> status r = APPROVED) \<and> p \<in> set (products r) \<and>
                  (\<exists>l\<in>set lines. rl_product_id l = Some (rp_product_id p))}
         \<and> snd (create_refund_request fromiso fl new_id tc today th supports st sc cust lines dd)
             = st)
   \<and> ((\<forall>r\<in>set st. support_case_id r = sc \<longrightarrow> status r = REJECTED \<or> status r = COMPLETED) \<longrightarrow>
        \<not> (\<exists>msg cs. fst (create_refund_request fromiso fl new_id tc today th supports st sc cust
                            lines dd)
               = Inl (BusinessRuleException msg (Some cs))))"
proof -
  let ?run = "create_refund_request fromiso fl new_id tc today th supports st sc cust lines dd"
  let ?conflict = "\<exists>r\<in>set st. support_case_id r = sc \<and> (status r = PENDING \<or> status r = APPROVED) \<and>
             (\<exists>p\<in>set (products r). \<exists>l\<in>set lines. rl_product_id l = Some (rp_product_id p))"
  let ?triples = "{\<lparr>c_refund_id = refund_id r, c_product_id = rp_product_id p, c_status = status r\<rparr>
              | r p. r \<in> set st \<and> support_case_id r = sc \<and>
                  (status r = PENDING \<or> status r = APPROVED) \<and> p \<in> set (products r) \<and>
                  (\<exists>l\<in>set lines. rl_product_id l = Some (rp_product_id p))}"
  from valid have "validate_lines lines = Inr ()"
    by (simp add: validate_refund_request_def split: if_splits)
  then obtain pids where pids: "product_ids_of lines = Inr pids"
    using validate_lines_product_ids by blast
  note ids = product_ids_of_set [OF pids]
  let ?cs = "concat (map (conflicts_of pids) (find_by_support_case st sc))"
  note run = create_refund_request_checked [where supports = supports and f = fromiso
      and fl = fl and new_id = new_id and tc = tc and today = today and th = th and st = st and dd = dd,
      OF valid sup own opn pids]
  have triples: "set ?cs = ?triples"
    unfolding set_conflicting_refunds ids by simp
  have nonempty: "?cs \<noteq> [] \<longleftrightarrow> ?conflict"
  proof -
    have "?cs \<noteq> [] \<longleftrightarrow> ?triples \<noteq> {}"
      using triples by (metis set_empty)
    also have "\<dots> \<longleftrightarrow> ?conflict" by blast
    finally show ?thesis .
  qed
  have rejected: "?run = (Inl (BusinessRuleException
        ''Some products already have active refund requests'' (Some ?cs)), st)"
    if "?cs \<noteq> []"
    using run that by simp
  have passed: "fst ?run \<noteq> Inl (BusinessRuleException msg (Some cs))" if "?cs = []" for msg cs
  proof
    assume "fst ?run = Inl (BusinessRuleException msg (Some cs))"
    with run that have "fst (create_refund_case fromiso fl new_id tc today th st sc cust
        (sc_order_id support_case) lines dd) = Inl (BusinessRuleException msg (Some cs))"
      by simp
    from create_refund_case_error [OF this] show False by auto
  qed
  have 1: "(\<exists>cs. fst ?run = Inl (BusinessRuleException
        ''Some products already have active refund requests'' (Some cs))) \<longleftrightarrow> ?conflict"
    using rejected passed nonempty by (cases "?cs = []") auto
  have 2: "set cs = ?triples \<and> snd ?run = st"
    if "fst ?run = Inl (BusinessRuleException msg (Some cs))" for msg cs
  proof (cases "?cs = []")
    case True
    with passed that show ?thesis by blast
  next
    case False
    with rejected that have "cs = ?cs" "snd ?run = st" by simp_all
    with triples show ?thesis by simp
  qed
  have 3: "\<not> (\<exists>msg cs. fst ?run = Inl (BusinessRuleException msg (Some cs)))"
    if "\<forall>r\<in>set st. support_case_id r = sc \<longrightarrow> status r = REJECTED \<or> status r = COMPLETED"
  proof -
    from that have "\<not> ?conflict" by auto
    with nonempty have "?cs = []" by simp
    with passed show ?thesis by blast
  qed
  show ?thesis using 1 2 3 by blast
qed


theorem conflict_rejects_creation_witness:
  "validate_refund_request ''SC1'' ''C1'' [example_line] = Inr ()
   \<and> [''SC1'' \<mapsto> example_support_case ''Open''] ''SC1'' = Some (example_support_case ''Open'')
   \<and> sc_customer_id (example_support_case ''Open'') = ''C1''
   \<and> sc_status (example_support_case ''Open'') = ''Open''
   \<and> (\<exists>cs. fst (create_refund_request fromiso_sample float_sample ''R2'' example_time 738960 example_time
                   [''SC1'' \<mapsto> example_support_case ''Open''] [example_case PENDING]
                   ''SC1'' ''C1'' [example_line] [''P1'' \<mapsto> ''2024-03-10''])
             = Inl (BusinessRuleException
                      ''Some products already have active refund requests'' (Some cs)))
   \<and> \<not> (\<exists>msg cs. fst (create_refund_request fromiso_sample float_sample ''R2'' example_time 738960
                         example_time [''SC1'' \<mapsto> example_support_case ''Open'']
                         [example_case REJECTED] ''SC1'' ''C1'' [example_line]
                         [''P1'' \<mapsto> ''2024-03-10''])
               = Inl (BusinessRuleException msg (Some cs)))"
proof -
  have valid: "validate_refund_request ''SC1'' ''C1'' [example_line] = Inr ()"
    by (simp add: validate_refund_request_def example_line_def)
  have sup: "[''SC1'' \<mapsto> example_support_case ''Open''] ''SC1''
      = Some (example_support_case ''Open'')"
    by simp
  have own: "sc_customer_id (example_support_case ''Open'') = ''C1''"
    by (simp add: example_support_case_def)
  have opn: "sc_status (example_support_case ''Open'') = ''Open''"
    by (simp add: example_support_case_def)
  have active: "\<exists>r\<in>set [example_case PENDING]. support_case_id r = ''SC1'' \<and>
      (status r = PENDING \<or> status r = APPROVED) \<and>
      (\<exists>p\<in>set (products r). \<exists>l\<in>set [example_line]. rl_product_id l = Some (rp_product_id p))"
    by (simp add: example_case_def example_line_def)
  have closed: "\<forall>r\<in>set [example_case REJECTED]. support_case_id r = ''SC1'' \<longrightarrow>
      status r = REJECTED \<or> status r = COMPLETED"
    by (simp add: example_case_def)
  have 1: "\<exists>cs. fst (create_refund_request fromiso_sample float_sample ''R2'' example_time 738960 example_time
                   [''SC1'' \<mapsto> example_support_case ''Open''] [example_case PENDING]
                   ''SC1'' ''C1'' [example_line] [''P1'' \<mapsto> ''2024-03-10''])
             = Inl (BusinessRuleException
                      ''Some products already have active refund requests'' (Some cs))"
    using conflict_rejects_creation [where supports = "[''SC1'' \<mapsto> example_support_case ''Open'']"
        and st = "[example_case PENDING]" and fromiso = fromiso_sample
        and fl = float_sample and new_id = "''R2''"
        and tc = example_time and today = 738960 and th = example_time
        and dd = "[''P1'' \<mapsto> ''2024-03-10'']", OF valid sup own opn] active
    by blast
  have 2: "\<not> (\<exists>msg cs. fst (create_refund_request fromiso_sample float_sample ''R2'' example_time 738960
                         example_time [''SC1'' \<mapsto> example_support_case ''Open'']
                         [example_case REJECTED] ''SC1'' ''C1'' [example_line]
                         [''P1'' \<mapsto> ''2024-03-10''])
               = Inl (BusinessRuleException msg (Some cs)))"
    using conflict_rejects_creation [where supports = "[''SC1'' \<mapsto> example_support_case ''Open'']"
        and st = "[example_case REJECTED]" and fromiso = fromiso_sample
        and fl = float_sample and new_id = "''R2''"
        and tc = example_time and today = 738960 and th = example_time
        and dd = "[''P1'' \<mapsto> ''2024-03-10'']", OF valid sup own opn] closed
    by blast
  show ?thesis using valid sup own opn 1 2 by blast
qed

theorem closed_support_case_counterexample:
  "cc_has_conflicts (check_existing_refunds [example_case PENDING] ''SC1'' [''P1''])
   \<and> cc_conflicting_refunds (check_existing_refunds [example_case PENDING] ''SC1'' [''P1''])
       = Some [\<lparr>c_refund_id = ''R1'', c_product_id = ''P1'', c_status = PENDING\<rparr>]
   \<and> create_refund_request fromiso_sample float_sample ''R2'' example_time 738960 example_time
        [''SC1'' \<mapsto> example_support_case ''Closed''] [example_case PENDING]
        ''SC1'' ''C1'' [example_line] [''P1'' \<mapsto> ''2024-03-10''] =
       (Inl (BusinessRuleException
               ''Refund requests can only be created from open support cases'' None),
        [example_case PENDING])"
proof -
  have 1: "check_existing_refunds [example_case PENDING] ''SC1'' [''P1''] =
      \<lparr>cc_has_conflicts = True,
       cc_conflicting_refunds =
         Some [\<lparr>c_refund_id = ''R1'', c_product_id = ''P1'', c_status = PENDING\<rparr>],
       cc_message = ''Some products already have active refund requests''\<rparr>"
    by (simp add: check_existing_refunds_def find_by_support_case_def find_all_by_field_def
        conflicts_of_def example_case_def)
  have 2: "create_refund_request fromiso_sample float_sample ''R2'' example_time 738960 example_time
        [''SC1'' \<mapsto> example_support_case ''Closed''] [example_case PENDING]
        ''SC1'' ''C1'' [example_line] [''P1'' \<mapsto> ''2024-03-10''] =
       (Inl (BusinessRuleException
               ''Refund requests can only be created from open support cases'' None),
        [example_case PENDING])"
    by (simp add: create_refund_request_def validate_refund_request_def example_line_def
        example_support_case_def)
  show ?thesis using 1 2 by simp
qed

section \<open>Creation: amounts and product lines\<close>

lemma refund_products_loop_result:
  "refund_products_loop fl dd lines acc tot = Inr (rps, t) \<Longrightarrow>
     running_total fl tot lines = Inr t
     \<and> (\<forall>p\<in>set rps. p \<in> set acc \<or> rp_eligibility p = ''Eligible'')"
proof (induction lines arbitrary: acc tot)
  case Nil
  then show ?case by auto
next
  case (Cons l ls)
  from Cons.prems obtain pid q where l: "rl_product_id l = Some pid" "rl_quantity l = Some q"
    by (auto split: option.splits)
  let ?price = "case rl_price l of None \<Rightarrow> FloatNum (fl_zero fl) | Some x \<Rightarrow> x"
  from Cons.prems l obtain a where a: "py_mul fl ?price q = Inr a"
    by (auto simp add: Let_def split: sum.splits)
  from Cons.prems l a obtain tot' where tot': "py_add fl tot a = Inr tot'"
    by (auto simp add: Let_def split: sum.splits)
  let ?p = "\<lparr>rp_product_id = pid, rp_quantity = q,
             rp_name = (case rl_name l of None \<Rightarrow> [] | Some n \<Rightarrow> n),
             rp_price = ?price, rp_refund_amount = a,
             rp_delivery_date = dd pid, rp_eligibility = ''Eligible''\<rparr>"
  from Cons.prems l a tot' have rec:
    "refund_products_loop fl dd ls (acc @ [?p]) tot' = Inr (rps, t)"
    by (simp add: Let_def)
  from Cons.IH [OF rec] l a tot' show ?case by auto
qed

lemma calculate_eligibility_keeps:
  "total_refund_amount (snd (calculate_eligibility f today dd rc)) = total_refund_amount rc"
  "products (snd (calculate_eligibility f today dd rc)) = products rc"
  by (simp_all add: calculate_eligibility_def Let_def split: sum.splits prod.splits)

lemma transitions_keep:
  "total_refund_amount (snd (approve_refund agent t1 t2 rc)) = total_refund_amount rc"
  "products (snd (approve_refund agent t1 t2 rc)) = products rc"
  "total_refund_amount (snd (reject_refund agent reason t1 t2 rc)) = total_refund_amount rc"
  "products (snd (reject_refund agent reason t1 t2 rc)) = products rc"
  "total_refund_amount (snd (complete_refund t2 rc)) = total_refund_amount rc"
  "products (snd (complete_refund t2 rc)) = products rc"
  by (simp_all add: approve_refund_def reject_refund_def complete_refund_def
      add_history_entry_def)

lemma apply_operation_keeps:
  "total_refund_amount (apply_operation f rc operation) = total_refund_amount rc"
  "products (apply_operation f rc operation) = products rc"
  by (cases operation; simp add: transitions_keep calculate_eligibility_keeps)+

lemma apply_operations_keep:
  "total_refund_amount (apply_operations f rc ops) = total_refund_amount rc
   \<and> products (apply_operations f rc ops) = products rc"
  unfolding apply_operations_def
  by (induction ops arbitrary: rc) (simp_all add: apply_operation_keeps)

lemma create_from_support_case_result:
  assumes "create_from_support_case f fl today th sc cust ord lines dd = Inr rc"
  shows "running_total fl (FloatNum (fl_zero fl)) lines = Inr (total_refund_amount rc)
     \<and> (\<forall>p\<in>set (products rc). rp_eligibility p = ''Eligible'')
     \<and> eligibility_status rc \<noteq> None \<and> length (history rc) = 1"
proof -
  from assms obtain rps t where
    loop: "refund_products_loop fl dd lines [] (FloatNum (fl_zero fl)) = Inr (rps, t)"
    by (auto simp add: create_from_support_case_def split: sum.splits)
  let ?rc0 = "\<lparr>support_case_id = sc, customer_id = cust, order_id = ord,
               eligibility_status = None, total_refund_amount = t,
               processed_at = None, rejection_reason = None, agent_id = None,
               products = rps, history = []\<rparr>"
  from assms loop obtain res rc' where
    calc: "calculate_eligibility f today dd ?rc0 = (Inr res, rc')"
    and rc: "rc = add_history_entry ''refund_requested'' cust
               [(''initial_status'', ''Pending''), (''eligibility'', r_eligibility_status res)]
               th rc'"
    by (auto simp add: create_from_support_case_def split: sum.splits prod.splits)
  from calc have rc': "total_refund_amount rc' = t" "products rc' = rps"
    "eligibility_status rc' \<noteq> None" "history rc' = []"
    by (auto simp add: calculate_eligibility_def Let_def split: sum.splits prod.splits)
  from refund_products_loop_result [OF loop]
  have "running_total fl (FloatNum (fl_zero fl)) lines = Inr t"
    "\<forall>p\<in>set rps. rp_eligibility p = ''Eligible''"
    by simp_all
  with rc rc' show ?thesis by (simp add: add_history_entry_def)
qed

lemma create_refund_request_result:
  assumes "fst (create_refund_request f fl new_id tc today th supports st sc cust lines dd)
             = Inr rc"
  shows "\<exists>ord u. create_from_support_case f fl today th sc cust ord lines dd = Inr u
           \<and> total_refund_amount rc = total_refund_amount u \<and> products rc = products u
           \<and> eligibility_status rc = eligibility_status u \<and> history rc = history u
           \<and> refund_id rc = new_id \<and> status rc = PENDING \<and> created_at rc = tc"
  using assms
  by (auto simp add: create_refund_request_def create_refund_case_def create_def Let_def
      split: sum.splits option.splits if_splits prod.splits) blast+

lemma created_case_is_pending:
  assumes "fst (create_refund_request f fl new_id tc today th supports st sc cust lines dd)
             = Inr rc"
  shows "status rc = PENDING \<and> eligibility_status rc \<noteq> None \<and> length (history rc) = 1"
proof -
  from create_refund_request_result [OF assms] obtain ord u where
    u: "create_from_support_case f fl today th sc cust ord lines dd = Inr u"
    and rc: "eligibility_status rc = eligibility_status u" "history rc = history u"
      "status rc = PENDING"
    by blast
  from create_from_support_case_result [OF u] rc show ?thesis by simp
qed

lemma example_creation:
  "create_refund_request fromiso_sample float_sample ''R1'' example_time 738960 example_time
     [''SC1'' \<mapsto> example_support_case ''Open''] [] ''SC1'' ''C1'' [example_line]
     [''P1'' \<mapsto> ''2024-03-10''] =
   (Inr (example_case PENDING), [example_case PENDING])"
  by (simp add: create_refund_request_def validate_refund_request_def example_line_def
      example_support_case_def check_existing_refunds_def find_by_support_case_def
      find_all_by_field_def create_refund_case_def create_from_support_case_def
      calculate_eligibility_def fromiso_sample_def overall_status_def add_history_entry_def
      create_def example_case_def float_sample_examples Let_def)

text \<open>
  Claim C8 (amended). After a successful creation the total refund amount is the
  running total of the submitted lines: starting from the float 0.0, price times
  quantity of each line is added in order, in Python arithmetic (a line without price
  counting as 0.0). No sequence of later approvals, rejections, completions and
  eligibility recomputations, successful or not, changes it.
\<close>

theorem total_fixed_at_creation:
  assumes "fst (create_refund_request fromiso fl new_id tc today th supports st sc cust
                  lines dd) = Inr rc"
  shows "running_total fl (FloatNum (fl_zero fl)) lines = Inr (total_refund_amount rc)
     \<and> total_refund_amount (apply_operations fromiso' rc ops) = total_refund_amount rc"
proof -
  from create_refund_request_result [OF assms] obtain ord u where
    u: "create_from_support_case fromiso fl today th sc cust ord lines dd = Inr u"
    and rc: "total_refund_amount rc = total_refund_amount u"
    by blast
  from create_from_support_case_result [OF u] rc
  have "running_total fl (FloatNum (fl_zero fl)) lines = Inr (total_refund_amount rc)" by simp
  with apply_operations_keep [of fromiso' rc ops] show ?thesis by simp
qed

theorem total_fixed_at_creation_witness:
  "fst (create_refund_request fromiso_sample float_sample ''R1'' example_time 738960
          example_time [''SC1'' \<mapsto> example_support_case ''Open''] [] ''SC1'' ''C1''
          [example_line] [''P1'' \<mapsto> ''2024-03-10'']) = Inr (example_case PENDING)
   \<and> running_total float_sample (FloatNum (fl_zero float_sample)) [example_line]
       = Inr (FloatNum 20)
   \<and> total_refund_amount
        (apply_operations fromiso_sample (example_case PENDING)
           [Approve ''agentA'' example_time example_time,
            Recompute 738990 Map.empty,
            Complete example_time,
            Reject ''agentB'' ''late'' example_time example_time]) = FloatNum 20"
proof -
  have made: "fst (create_refund_request fromiso_sample float_sample ''R1'' example_time 738960
          example_time [''SC1'' \<mapsto> example_support_case ''Open''] [] ''SC1'' ''C1''
          [example_line] [''P1'' \<mapsto> ''2024-03-10'']) = Inr (example_case PENDING)"
    by (simp add: example_creation)
  have amount: "total_refund_amount (example_case PENDING) = FloatNum 20"
    by (simp add: example_case_def)
  show ?thesis
    using total_fixed_at_creation [OF made, of fromiso_sample
        "[Approve ''agentA'' example_time example_time,
            Recompute 738990 Map.empty,
            Complete example_time,
            Reject ''agentB'' ''late'' example_time example_time]"]
      made amount
    by simp
qed

theorem rounded_total_counterexample:
  "rl_price example_large_line = Some (IntNum 1)
   \<and> rl_quantity example_large_line = Some 9007199254740993
   \<and> fst (create_refund_request fromiso_sample float_sample ''R1'' example_time 738960
            example_time [''SC1'' \<mapsto> example_support_case ''Open''] [] ''SC1'' ''C1''
            [example_large_line] [''P1'' \<mapsto> ''2024-03-10'']) =
       Inr ((example_case PENDING)
              \<lparr>total_refund_amount := FloatNum 9007199254740992,
               products := [\<lparr>rp_product_id = ''P1'', rp_quantity = 9007199254740993,
                              rp_name = [], rp_price = IntNum 1,
                              rp_refund_amount = IntNum 9007199254740993,
                              rp_delivery_date = Some ''2024-03-10'',
                              rp_eligibility = ''Eligible''\<rparr>]\<rparr>)
   \<and> (1 :: int) * 9007199254740993 \<noteq> 9007199254740992"
  by (simp add: create_refund_request_def validate_refund_request_def example_large_line_def
      example_support_case_def check_existing_refunds_def find_by_support_case_def
      find_all_by_field_def create_refund_case_def create_from_support_case_def
      calculate_eligibility_def fromiso_sample_def overall_status_def add_history_entry_def
      create_def example_case_def float_sample_examples Let_def)

text \<open>
  Claim C9. In a refund case made by a successful creation every element of
  \<^verbatim>\<open>products\<close> has the per-line eligibility "Eligible", whatever the case-level
  eligibility status and whatever the judgement of the line, and no sequence of later
  approvals, rejections, completions and eligibility recomputations changes
  \<^verbatim>\<open>products\<close>.
\<close>

theorem line_eligibility_stays_eligible:
  assumes "fst (create_refund_request fromiso fl new_id tc today th supports st sc cust
                  lines dd) = Inr rc"
  shows "(\<forall>p\<in>set (products rc). rp_eligibility p = ''Eligible'')
     \<and> products (apply_operations fromiso' rc ops) = products rc
     \<and> (\<forall>p\<in>set (products (apply_operations fromiso' rc ops)). rp_eligibility p = ''Eligible'')"
proof -
  from create_refund_request_result [OF assms] obtain ord u where
    u: "create_from_support_case fromiso fl today th sc cust ord lines dd = Inr u"
    and rc: "products rc = products u"
    by blast
  from create_from_support_case_result [OF u] rc
  have "\<forall>p\<in>set (products rc). rp_eligibility p = ''Eligible''" by simp
  with apply_operations_keep [of fromiso' rc ops] show ?thesis by simp
qed

theorem line_eligibility_stays_eligible_witness:
  "fst (create_refund_request fromiso_sample float_sample ''R1'' example_time 738980
          example_time [''SC1'' \<mapsto> example_support_case ''Open''] [] ''SC1'' ''C1''
          [example_line] [''P1'' \<mapsto> ''2024-03-10''])
     = Inr ((example_case PENDING)
              \<lparr>eligibility_status := Some INELIGIBLE,
               history := [\<lparr>h_action = ''refund_requested'', h_timestamp = example_time,
                             h_user_id = ''C1'',
                             h_details = [(''initial_status'', ''Pending''),
                                          (''eligibility'', ''Ineligible'')]\<rparr>]\<rparr>)
   \<and> map rp_eligibility
        (products (apply_operations fromiso_sample
           ((example_case PENDING)
              \<lparr>eligibility_status := Some INELIGIBLE,
               history := [\<lparr>h_action = ''refund_requested'', h_timestamp = example_time,
                             h_user_id = ''C1'',
                             h_details = [(''initial_status'', ''Pending''),
                                          (''eligibility'', ''Ineligible'')]\<rparr>]\<rparr>)
           [Recompute 738960 [''P1'' \<mapsto> ''2024-03-10''],
            Approve ''agentA'' example_time example_time,
            Complete example_time])) = [''Eligible'']"
proof -
  let ?rc = "(example_case PENDING)
              \<lparr>eligibility_status := Some INELIGIBLE,
               history := [\<lparr>h_action = ''refund_requested'', h_timestamp = example_time,
                             h_user_id = ''C1'',
                             h_details = [(''initial_status'', ''Pending''),
                                          (''eligibility'', ''Ineligible'')]\<rparr>]\<rparr>"
  let ?ops = "[Recompute 738960 [''P1'' \<mapsto> ''2024-03-10''],
            Approve ''agentA'' example_time example_time,
            Complete example_time]"
  have made: "fst (create_refund_request fromiso_sample float_sample ''R1'' example_time 738980
          example_time [''SC1'' \<mapsto> example_support_case ''Open''] [] ''SC1'' ''C1''
          [example_line] [''P1'' \<mapsto> ''2024-03-10'']) = Inr ?rc"
    by (simp add: create_refund_request_def validate_refund_request_def example_line_def
      example_support_case_def check_existing_refunds_def find_by_support_case_def
      find_all_by_field_def create_refund_case_def create_from_support_case_def
      calculate_eligibility_def fromiso_sample_def overall_status_def add_history_entry_def
      create_def example_case_def str_int_def str_nat.simps float_sample_examples Let_def)
  have lines: "products ?rc =
      [\<lparr>rp_product_id = ''P1'', rp_quantity = 2, rp_name = [], rp_price = IntNum 10,
        rp_refund_amount = IntNum 20, rp_delivery_date = Some ''2024-03-10'',
        rp_eligibility = ''Eligible''\<rparr>]"
    by (simp add: example_case_def)
  from line_eligibility_stays_eligible [OF made, of fromiso_sample ?ops]
  have "products (apply_operations fromiso_sample ?rc ?ops) = products ?rc" by simp
  with lines made show ?thesis by simp
qed

end
